theory Spec2Isabelle
  imports Complex_Main "HOL-Library.AList"
begin

section \<open>The reactive store of \<^verbatim>\<open>src/index.js\<close>\<close>

text \<open>
  The module keeps one registry of named stores (\<^verbatim>\<open>const stores = new Map()\<close>). A store
  closes over a state object, a Map of global subscribers and a Map of per-property
  subscriber Maps; a Proxy over the state object notifies the subscribers from its
  \<^verbatim>\<open>set\<close> trap. The embedding makes all of this explicit state:
  \<^item> JavaScript objects live in a heap and are named by references, so that sharing
    between the caller's objects and the store's is visible;
  \<^item> a store instance is an entry of the list \<open>instances\<close>, and a store handle is its
    index (the identity of the store object);
  \<^item> a JavaScript \<^verbatim>\<open>Map\<close> is an association list in insertion order
    (\<open>AList.update\<close> is \<^verbatim>\<open>Map.prototype.set\<close>, \<open>AList.delete\<close> is
    \<^verbatim>\<open>Map.prototype.delete\<close>, \<open>map_of\<close> is \<^verbatim>\<open>get\<close>/\<^verbatim>\<open>has\<close>);
  \<^item> \<^verbatim>\<open>Symbol()\<close> draws from a counter;
  \<^item> a thrown exception is the \<open>Inl\<close> branch of a sum, carrying the world at the
    moment of the throw;
  \<^item> the console and every callback invocation are recorded in one trace.

  This first model is the store as a caller meets it who names properties by strings,
  stores them on the state object itself and subscribes callbacks that only observe: its
  property keys are strings, a property is read from the state object's own properties,
  and a callback returns or throws and does nothing else. The second model below
  (\<open>proxy_set_full\<close> and the definitions around it) drops these three restrictions, and
  does what the first one does on the names that \<^verbatim>\<open>Object.prototype\<close> has no property under
  (lemma \<open>first_model_agrees\<close>). The
  web-component helpers (\<^verbatim>\<open>StoreConnector\<close>, \<^verbatim>\<open>defineReactiveElement\<close>) are callers of the
  store and are not modelled.
\<close>

subsection \<open>Values and objects\<close>

type_synonym ref = nat
type_synonym key = string
type_synonym symbol = nat

datatype jsval =
    Undefined | Null | Bool bool
  | Num rat | NegZero | Infinity | NegInfinity | NaN
  | BigInt int | Str string | Sym symbol
  | Obj ref | ObjectPrototype | Intrinsic key

text \<open>
  The store never computes with a value: it keeps it and compares it with \<^verbatim>\<open>!==\<close>. A
  number is the rational it denotes (\<open>Num\<close>: every finite number but \<^verbatim>\<open>-0\<close>; \<open>Num 0\<close> is
  \<^verbatim>\<open>+0\<close>), \<^verbatim>\<open>-0\<close>, an infinity or \<^verbatim>\<open>NaN\<close>. \<open>Sym\<close> is a symbol. \<open>Obj r\<close> is a reference
  to an object of the heap (plain object, array or function); \<open>ObjectPrototype\<close> is
  \<^verbatim>\<open>Object.prototype\<close> and \<open>Intrinsic k\<close> the function it holds under the name \<open>k\<close>
  (\<^verbatim>\<open>Object.prototype.toString\<close> and the like). The comparison \<^verbatim>\<open>a === b\<close> is identity on
  all of these, but \<^verbatim>\<open>NaN\<close> is different from itself and the two zeros are equal.
\<close>

definition is_zero :: "jsval \<Rightarrow> bool" where
  "is_zero v = (v = Num 0 \<or> v = NegZero)"

definition strict_eq :: "jsval \<Rightarrow> jsval \<Rightarrow> bool" where
  "strict_eq a b = (a \<noteq> NaN \<and> (a = b \<or> (is_zero a \<and> is_zero b)))"

type_synonym obj = "key \<rightharpoonup> jsval"

text \<open>\<^verbatim>\<open>target[prop]\<close> on own properties: an absent property reads \<^verbatim>\<open>undefined\<close>.\<close>

definition prop_get :: "obj \<Rightarrow> key \<Rightarrow> jsval" where
  "prop_get ob prop = (case ob prop of None \<Rightarrow> Undefined | Some v \<Rightarrow> v)"

subsection \<open>Subscribers, the trace and the world\<close>

text \<open>
  A property subscriber is called as \<^verbatim>\<open>callback(value, oldValue)\<close>, a global one as
  \<^verbatim>\<open>callback({ [prop]: value }, prop)\<close>. A callback is an observer: from its arguments and
  the state object's contents at the moment of the call (what it reads through
  \<^verbatim>\<open>store.state\<close>) it either returns (\<open>None\<close>) or throws (\<open>Some error\<close>). Callbacks
  that write to the store or change subscriptions while a notification runs are not
  modelled.
\<close>

datatype call_args = PropChange jsval jsval | StateChange key jsval

type_synonym callback = "call_args \<Rightarrow> obj \<Rightarrow> jsval option"

datatype subscription = OnProp key symbol | OnAll symbol

datatype event =
    Invoked subscription call_args obj
  | ErrorInSubscriber key jsval
  | ErrorInGlobalSubscriber jsval
  | WarnStoreExists string

record store =
  stateObj :: ref
  subscribers :: "(symbol \<times> callback) list"
  propSubscribers :: "(key \<times> (symbol \<times> callback) list) list"

record world =
  heap :: "obj list"
  instances :: "store list"
  stores :: "(string \<times> nat) list"
  symbols :: nat
  console :: "event list"

text \<open>
  References and handles held by JavaScript code always name an existing object. The
  accessors say what the model reads elsewhere: an empty object, a store without
  subscribers.
\<close>

definition deref :: "obj list \<Rightarrow> ref \<Rightarrow> obj" where
  "deref h r = (if r < length h then h ! r else Map.empty)"

definition no_store :: store where
  "no_store = \<lparr>stateObj = 0, subscribers = [], propSubscribers = []\<rparr>"

definition instance_of :: "world \<Rightarrow> nat \<Rightarrow> store" where
  "instance_of w s = (if s < length (instances w) then instances w ! s else no_store)"

definition state_of :: "world \<Rightarrow> nat \<Rightarrow> obj" where
  "state_of w s = deref (heap w) (stateObj (instance_of w s))"

definition valid_store :: "world \<Rightarrow> nat \<Rightarrow> bool" where
  "valid_store w s = (s < length (instances w) \<and> stateObj (instances w ! s) < length (heap w))"

definition log_event :: "event \<Rightarrow> world \<Rightarrow> world" where
  "log_event e w = w\<lparr>console := console w @ [e]\<rparr>"

text \<open>The events a run from \<open>w\<close> to \<open>w'\<close> added to the trace.\<close>

definition emitted :: "world \<Rightarrow> world \<Rightarrow> event list" where
  "emitted w w' = drop (length (console w)) (console w')"

subsection \<open>The Proxy: \<^verbatim>\<open>get\<close> and \<^verbatim>\<open>set\<close> traps\<close>

text \<open>
  Calling a callback: the call is recorded with the state the callback finds, then it
  returns or throws.
\<close>

definition invoke ::
  "subscription \<Rightarrow> callback \<Rightarrow> call_args \<Rightarrow> nat \<Rightarrow> world \<Rightarrow> (jsval \<times> world) + world" where
  "invoke sub cb args s w =
     (let seen = state_of w s; w' = log_event (Invoked sub args seen) w
      in case cb args seen of Some err \<Rightarrow> Inl (err, w') | None \<Rightarrow> Inr w')"

text \<open>
  \<^verbatim>\<open>Map.prototype.forEach\<close>, \<^verbatim>\<open>Array.prototype.forEach\<close>: the body runs on each entry in
  order; an exception that leaves the body ends the loop.
\<close>

fun forEach ::
  "('a \<Rightarrow> world \<Rightarrow> (jsval \<times> world) + world) \<Rightarrow> 'a list \<Rightarrow> world \<Rightarrow> (jsval \<times> world) + world" where
  "forEach body [] w = Inr w"
| "forEach body (x # xs) w =
     (case body x w of Inl e \<Rightarrow> Inl e | Inr w' \<Rightarrow> forEach body xs w')"

text \<open>
  The two loop bodies of the \<^verbatim>\<open>set\<close> trap (lines 50--56 and 60--66), each a
  \<^verbatim>\<open>try\<close>/\<^verbatim>\<open>catch\<close> around one call:
  \<^verbatim>\<open>try { callback(value, oldValue); } catch (error) { console.error(..., error); }\<close> and
  \<^verbatim>\<open>try { callback({ [prop]: value }, prop); } catch (error) { console.error(..., error); }\<close>.
\<close>

definition notify_prop ::
  "nat \<Rightarrow> key \<Rightarrow> jsval \<Rightarrow> jsval \<Rightarrow> symbol \<times> callback \<Rightarrow> world \<Rightarrow> (jsval \<times> world) + world" where
  "notify_prop s prop val oldValue entry w =
     (case invoke (OnProp prop (fst entry)) (snd entry) (PropChange val oldValue) s w of
        Inl (err, w') \<Rightarrow> Inr (log_event (ErrorInSubscriber prop err) w')
      | Inr w' \<Rightarrow> Inr w')"

definition notify_global ::
  "nat \<Rightarrow> key \<Rightarrow> jsval \<Rightarrow> symbol \<times> callback \<Rightarrow> world \<Rightarrow> (jsval \<times> world) + world" where
  "notify_global s prop val entry w =
     (case invoke (OnAll (fst entry)) (snd entry) (StateChange prop val) s w of
        Inl (err, w') \<Rightarrow> Inr (log_event (ErrorInGlobalSubscriber err) w')
      | Inr w' \<Rightarrow> Inr w')"

text \<open>The \<^verbatim>\<open>get\<close> trap (lines 35--38): \<^verbatim>\<open>return target[prop]\<close>.\<close>

definition proxy_get :: "nat \<Rightarrow> key \<Rightarrow> world \<Rightarrow> jsval" where
  "proxy_get s prop w = prop_get (state_of w s) prop"

text \<open>A plain property write \<^verbatim>\<open>object[prop] = value\<close> on the object at a reference.\<close>

definition assign :: "ref \<Rightarrow> key \<Rightarrow> jsval \<Rightarrow> world \<Rightarrow> world" where
  "assign r prop val w = w\<lparr>heap := (heap w)[r := (deref (heap w) r)(prop \<mapsto> val)]\<rparr>"

text \<open>
  The \<^verbatim>\<open>set\<close> trap (lines 40--70): \<^verbatim>\<open>const oldValue = target[prop]; target[prop] = value;\<close>
  then, \<^verbatim>\<open>if (oldValue !== value)\<close>, the subscribers of \<^verbatim>\<open>prop\<close>
  (\<^verbatim>\<open>if (propSubscribers.has(prop)) propSubscribers.get(prop).forEach(...)\<close>) and the global
  subscribers (\<^verbatim>\<open>subscribers.forEach(...)\<close>); it ends with \<^verbatim>\<open>return true\<close>.
\<close>

definition proxy_set :: "nat \<Rightarrow> key \<Rightarrow> jsval \<Rightarrow> world \<Rightarrow> (jsval \<times> world) + (bool \<times> world)" where
  "proxy_set s prop val w =
     (let target = stateObj (instance_of w s);
          oldValue = prop_get (deref (heap w) target) prop;
          w1 = assign target prop val w
      in if \<not> strict_eq oldValue val then
           (case (case map_of (propSubscribers (instance_of w1 s)) prop of
                    Some m \<Rightarrow> forEach (notify_prop s prop val oldValue) m w1
                  | None \<Rightarrow> Inr w1) of
              Inl e \<Rightarrow> Inl e
            | Inr w2 \<Rightarrow>
                (case forEach (notify_global s prop val) (subscribers (instance_of w2 s)) w2 of
                   Inl e \<Rightarrow> Inl e
                 | Inr w3 \<Rightarrow> Inr (True, w3)))
         else Inr (True, w1))"

subsection \<open>The store object\<close>

text \<open>
  \<^verbatim>\<open>get(prop) { return state[prop]; }\<close> and
  \<^verbatim>\<open>set(prop, value) { state[prop] = value; return value; }\<close> (lines 79--87), through the
  Proxy \<^verbatim>\<open>state\<close>.
\<close>

definition store_get :: "nat \<Rightarrow> key \<Rightarrow> world \<Rightarrow> jsval" where
  "store_get s prop w = proxy_get s prop w"

definition store_set :: "nat \<Rightarrow> key \<Rightarrow> jsval \<Rightarrow> world \<Rightarrow> (jsval \<times> world) + (jsval \<times> world)" where
  "store_set s prop val w =
     (case proxy_set s prop val w of Inl e \<Rightarrow> Inl e | Inr (_, w') \<Rightarrow> Inr (val, w'))"

text \<open>
  \<^verbatim>\<open>subscribe(callback) { const id = Symbol(); subscribers.set(id, callback); return () => { subscribers.delete(id); }; }\<close>
  (lines 97--105) and \<^verbatim>\<open>on(prop, callback)\<close> (lines 108--122), which first creates the
  Map of \<^verbatim>\<open>prop\<close> where \<^verbatim>\<open>propSubscribers\<close> has none, then
  \<^verbatim>\<open>propSubscribers.get(prop).set(id, callback)\<close>, and returns
  \<^verbatim>\<open>() => { if (propSubscribers.has(prop)) { propSubscribers.get(prop).delete(id); } }\<close>.
  The returned functions are closures over the store's Maps and the id; the datatype
  \<open>unsubscribe\<close> holds what they close over and \<open>call_unsubscribe\<close> runs them.
\<close>

datatype unsubscribe = UnsubscribeAll nat symbol | UnsubscribeProp nat key symbol

definition store_subscribe :: "nat \<Rightarrow> callback \<Rightarrow> world \<Rightarrow> unsubscribe \<times> world" where
  "store_subscribe s cb w =
     (let ident = symbols w; st = instance_of w s
      in (UnsubscribeAll s ident,
          w\<lparr>instances := (instances w)[s := st\<lparr>subscribers := AList.update ident cb (subscribers st)\<rparr>],
            symbols := Suc ident\<rparr>))"

definition store_on :: "nat \<Rightarrow> key \<Rightarrow> callback \<Rightarrow> world \<Rightarrow> unsubscribe \<times> world" where
  "store_on s prop cb w =
     (let st = instance_of w s;
          ps = (if map_of (propSubscribers st) prop = None
                then AList.update prop [] (propSubscribers st) else propSubscribers st);
          ident = symbols w;
          m = (case map_of ps prop of Some m \<Rightarrow> m | None \<Rightarrow> [])
      in (UnsubscribeProp s prop ident,
          w\<lparr>instances := (instances w)[s := st\<lparr>propSubscribers := AList.update prop (AList.update ident cb m) ps\<rparr>],
            symbols := Suc ident\<rparr>))"

fun call_unsubscribe :: "unsubscribe \<Rightarrow> world \<Rightarrow> world" where
  "call_unsubscribe (UnsubscribeAll s ident) w =
     (let st = instance_of w s
      in w\<lparr>instances := (instances w)[s := st\<lparr>subscribers := AList.delete ident (subscribers st)\<rparr>]\<rparr>)"
| "call_unsubscribe (UnsubscribeProp s prop ident) w =
     (let st = instance_of w s
      in case map_of (propSubscribers st) prop of
           Some m \<Rightarrow>
             w\<lparr>instances := (instances w)[s := st\<lparr>propSubscribers :=
                  AList.update prop (AList.delete ident m) (propSubscribers st)\<rparr>]\<rparr>
         | None \<Rightarrow> w)"

text \<open>
  \<^verbatim>\<open>getState() { return { ...stateObj }; }\<close> (lines 125--127): a new object with the own
  properties of the state object.
\<close>

definition store_getState :: "nat \<Rightarrow> world \<Rightarrow> jsval \<times> world" where
  "store_getState s w = (Obj (length (heap w)), w\<lparr>heap := heap w @ [state_of w s]\<rparr>)"

subsection \<open>The registry\<close>

text \<open>
  \<^verbatim>\<open>createStore(name, initialState = {})\<close> (lines 18--134): when \<^verbatim>\<open>stores.has(name)\<close> it
  warns and returns \<^verbatim>\<open>stores.get(name)\<close>; otherwise it builds the Maps, the state object
  \<^verbatim>\<open>let stateObj = { ...initialState }\<close>, the Proxy and the store object, and registers it
  with \<^verbatim>\<open>stores.set(name, store)\<close>. \<open>initialState\<close> is a reference to the caller's object,
  or \<open>None\<close> when the argument is left out (the default \<^verbatim>\<open>{}\<close>).
\<close>

definition spread :: "obj list \<Rightarrow> ref option \<Rightarrow> obj" where
  "spread h initialState = (case initialState of None \<Rightarrow> Map.empty | Some r \<Rightarrow> deref h r)"

definition createStore :: "string \<Rightarrow> ref option \<Rightarrow> world \<Rightarrow> nat \<times> world" where
  "createStore name initialState w =
     (case map_of (stores w) name of
        Some s \<Rightarrow> (s, log_event (WarnStoreExists name) w)
      | None \<Rightarrow>
          (let s = length (instances w);
               st = \<lparr>stateObj = length (heap w), subscribers = [], propSubscribers = []\<rparr>
           in (s, w\<lparr>heap := heap w @ [spread (heap w) initialState],
                    instances := instances w @ [st],
                    stores := AList.update name s (stores w)\<rparr>)))"

text \<open>
  \<^verbatim>\<open>getStore(name) { return stores.get(name) || null; }\<close> (lines 141--143): a store object
  is truthy, \<^verbatim>\<open>undefined\<close> is not.
\<close>

datatype lookup = NoValue | NullValue | StoreObject nat

definition stores_get :: "world \<Rightarrow> string \<Rightarrow> lookup" where
  "stores_get w name = (case map_of (stores w) name of None \<Rightarrow> NoValue | Some s \<Rightarrow> StoreObject s)"

fun truthy :: "lookup \<Rightarrow> bool" where
  "truthy (StoreObject s) = True"
| "truthy NoValue = False"
| "truthy NullValue = False"

definition getStore :: "string \<Rightarrow> world \<Rightarrow> lookup" where
  "getStore name w = (let found = stores_get w name in if truthy found then found else NullValue)"

text \<open>
  Loading the module: the empty registry, then
  \<^verbatim>\<open>export const defaultStore = createStore('default', {})\<close> (line 148).
\<close>

definition empty_world :: world where
  "empty_world = \<lparr>heap = [], instances = [], stores = [], symbols = 0, console = []\<rparr>"

definition module_setup :: "nat \<times> world" where
  "module_setup = createStore ''default'' (Some 0) (empty_world\<lparr>heap := [Map.empty]\<rparr>)"

definition defaultStore :: nat where
  "defaultStore = fst module_setup"

definition module_world :: world where
  "module_world = snd module_setup"

subsection \<open>Reading the trace\<close>

text \<open>The world a call leaves behind, whether it returned or threw.\<close>

definition after :: "(jsval \<times> world) + ('a \<times> world) \<Rightarrow> world" where
  "after outcome = (case outcome of Inl (_, w) \<Rightarrow> w | Inr (_, w) \<Rightarrow> w)"

text \<open>\<^verbatim>\<open>propSubscribers.get(prop)\<close> where there is one: the subscribers registered on \<open>prop\<close>.\<close>

definition subscribers_on :: "world \<Rightarrow> nat \<Rightarrow> key \<Rightarrow> (symbol \<times> callback) list" where
  "subscribers_on w s prop =
     (case map_of (propSubscribers (instance_of w s)) prop of Some m \<Rightarrow> m | None \<Rightarrow> [])"

fun invoked_by :: "event \<Rightarrow> subscription list" where
  "invoked_by (Invoked sub args seen) = [sub]"
| "invoked_by _ = []"

text \<open>The subscriptions whose callbacks were called, in the order of the calls.\<close>

definition invoked_subscriptions :: "event list \<Rightarrow> subscription list" where
  "invoked_subscriptions evs = concat (map invoked_by evs)"

subsection \<open>What one assignment leaves behind\<close>

text \<open>
  The events of one subscriber: its call, and the report when it throws. With them the
  outcome of the \<^verbatim>\<open>set\<close> trap is written without loops and exceptions; the lemma
  \<open>proxy_set_eq\<close> below proves that the trap computes exactly this.
\<close>

definition prop_events :: "key \<Rightarrow> jsval \<Rightarrow> jsval \<Rightarrow> obj \<Rightarrow> symbol \<times> callback \<Rightarrow> event list" where
  "prop_events prop val oldValue seen entry =
     Invoked (OnProp prop (fst entry)) (PropChange val oldValue) seen #
     (case snd entry (PropChange val oldValue) seen of
        Some err \<Rightarrow> [ErrorInSubscriber prop err] | None \<Rightarrow> [])"

definition global_events :: "key \<Rightarrow> jsval \<Rightarrow> obj \<Rightarrow> symbol \<times> callback \<Rightarrow> event list" where
  "global_events prop val seen entry =
     Invoked (OnAll (fst entry)) (StateChange prop val) seen #
     (case snd entry (StateChange prop val) seen of
        Some err \<Rightarrow> [ErrorInGlobalSubscriber err] | None \<Rightarrow> [])"

definition set_events :: "world \<Rightarrow> nat \<Rightarrow> key \<Rightarrow> jsval \<Rightarrow> event list" where
  "set_events w s prop val =
     (let oldValue = prop_get (state_of w s) prop;
          seen = state_of (assign (stateObj (instance_of w s)) prop val w) s
      in if strict_eq oldValue val then []
         else concat (map (prop_events prop val oldValue seen) (subscribers_on w s prop))
              @ concat (map (global_events prop val seen) (subscribers (instance_of w s))))"

definition set_result :: "world \<Rightarrow> nat \<Rightarrow> key \<times> jsval \<Rightarrow> world" where
  "set_result w s entry =
     (assign (stateObj (instance_of w s)) (fst entry) (snd entry) w)
       \<lparr>console := console w @ set_events w s (fst entry) (snd entry)\<rparr>"


subsection \<open>Subscriptions and their symbols\<close>


fun handle_store :: "unsubscribe \<Rightarrow> nat" where
  "handle_store (UnsubscribeAll s ident) = s"
| "handle_store (UnsubscribeProp s prop ident) = s"



text \<open>
  The symbols a store's subscriptions bear. Every \<^verbatim>\<open>Symbol()\<close> is new: in the model, below
  the counter. \<open>fresh_symbols\<close> holds when the module is loaded and every operation keeps
  it (lemmas \<open>fresh_symbols_empty\<close>, \<open>fresh_symbols_createStore\<close>,
  \<open>fresh_symbols_subscribe\<close>, \<open>fresh_symbols_on\<close>, \<open>fresh_symbols_unsubscribe\<close>,
  \<open>fresh_symbols_set_result\<close>).
\<close>

definition symbols_of :: "store \<Rightarrow> symbol set" where
  "symbols_of st =
     fst ` set (subscribers st) \<union> (\<Union>entry \<in> set (propSubscribers st). fst ` set (snd entry))"

definition fresh_symbols :: "world \<Rightarrow> bool" where
  "fresh_symbols w = (\<forall>st \<in> set (instances w). \<forall>ident \<in> symbols_of st. ident < symbols w)"

subsection \<open>The caller's own reads and writes\<close>

text \<open>
  \<^verbatim>\<open>v.k\<close> and \<^verbatim>\<open>v.k = x\<close> on a value the caller holds; they are used on objects only.
  \<open>assign\<close> above is the same write given the reference.
\<close>

definition member :: "jsval \<Rightarrow> key \<Rightarrow> world \<Rightarrow> jsval" where
  "member v k w = (case v of Obj r \<Rightarrow> prop_get (deref (heap w) r) k | _ \<Rightarrow> Undefined)"

definition member_assign :: "jsval \<Rightarrow> key \<Rightarrow> jsval \<Rightarrow> world \<Rightarrow> world" where
  "member_assign target k v w = (case target of Obj r \<Rightarrow> assign r k v w | _ \<Rightarrow> w)"

subsection \<open>Example worlds\<close>


text \<open>
  \<^verbatim>\<open>const init = { count: 0 }; const counter = createStore('counter', init)\<close>.
\<close>

definition counter_before :: world where
  "counter_before = module_world\<lparr>heap := heap module_world @ [[''count'' \<mapsto> Num 0]]\<rparr>"

definition counter_setup :: "nat \<times> world" where
  "counter_setup = createStore ''counter'' (Some 2) counter_before"

definition counter_store :: nat where
  "counter_store = fst counter_setup"

definition counter_world :: world where
  "counter_world = snd counter_setup"



text \<open>
  A nested object: \<^verbatim>\<open>const user = { name: 'A' }; const profile = createStore('profile', { user })\<close>,
  then \<^verbatim>\<open>const copy = profile.getState(); copy.user.name = 'B'\<close>.
\<close>

definition profile_setup :: "nat \<times> world" where
  "profile_setup =
     createStore ''profile'' (Some 3)
       (module_world\<lparr>heap := heap module_world @
          [[''name'' \<mapsto> Str ''A''], [''user'' \<mapsto> Obj 2]]\<rparr>)"

definition profile_store :: nat where
  "profile_store = fst profile_setup"

definition profile_world :: world where
  "profile_world = snd profile_setup"

definition profile_copy :: "jsval \<times> world" where
  "profile_copy = store_getState profile_store profile_world"

definition profile_mutated :: world where
  "profile_mutated =
     member_assign (member (fst profile_copy) ''user'' (snd profile_copy)) ''name'' (Str ''B'')
       (snd profile_copy)"


section \<open>The store with every property key and with subscribers that act\<close>

text \<open>
  The second model of the same code follows the \<^verbatim>\<open>set\<close> trap where the first one does not
  go:
  \<^item> a property key is a string or a symbol, and the state object inherits from
    \<^verbatim>\<open>Object.prototype\<close>: \<^verbatim>\<open>target[prop]\<close> reads an inherited property where the object has
    none of its own, and \<^verbatim>\<open>target['__proto__'] = value\<close> runs the setter of
    \<^verbatim>\<open>Object.prototype\<close>;
  \<^item> the key of \<^verbatim>\<open>propSubscribers\<close> is whatever value \<^verbatim>\<open>on\<close> was given, compared as a
    \<^verbatim>\<open>Map\<close> compares keys;
  \<^item> the \<^verbatim>\<open>catch\<close> block of a property subscriber builds its message with
    \<^verbatim>\<open>${prop}\<close>, which throws a \<^verbatim>\<open>TypeError\<close> when \<^verbatim>\<open>prop\<close> is a symbol;
  \<^item> a callback may, besides returning or throwing, write to a store (its own or
    another) and call unsubscribe functions while the notification that called it is
    still running; the \<^verbatim>\<open>Map.prototype.forEach\<close> of the notification skips an entry
    deleted before its turn.

  Its limits are these. The state object is an ordinary extensible object whose own
  properties are writable data properties, which is all the store itself ever creates,
  \<^verbatim>\<open>Object.prototype\<close> is as the language defines it, and \<^verbatim>\<open>console.error\<close> logs and
  returns. A run that replaces the state
  object's prototype, or that nests Proxy writes deeper than the given depth, is not
  followed: its outcome is \<open>Unfollowed\<close>. A callback that subscribes further callbacks
  is not modelled. The argument of \<^verbatim>\<open>get\<close> and \<^verbatim>\<open>set\<close> is the property key that
  \<^verbatim>\<open>state[prop]\<close> makes of it (the symbol itself, or else its string).
\<close>

subsection \<open>Property keys and inherited properties\<close>

datatype property_key = StringKey key | SymbolKey symbol

text \<open>The value of \<^verbatim>\<open>prop\<close> inside the traps: a string or a symbol.\<close>

fun key_value :: "property_key \<Rightarrow> jsval" where
  "key_value (StringKey k) = Str k"
| "key_value (SymbolKey y) = Sym y"

text \<open>An object's own properties.\<close>

type_synonym object = "property_key \<rightharpoonup> jsval"

text \<open>
  The properties of \<^verbatim>\<open>Object.prototype\<close>: eleven functions under string keys and the
  accessor \<^verbatim>\<open>__proto__\<close>, whose getter returns the prototype of the object it is read
  from, here \<^verbatim>\<open>Object.prototype\<close> itself. It has no property under a symbol.
\<close>

definition object_prototype_names :: "key list" where
  "object_prototype_names =
     [''constructor'', ''__defineGetter__'', ''__defineSetter__'', ''hasOwnProperty'',
      ''__lookupGetter__'', ''__lookupSetter__'', ''isPrototypeOf'', ''propertyIsEnumerable'',
      ''toString'', ''valueOf'', ''toLocaleString'']"

fun inherited :: "property_key \<Rightarrow> jsval" where
  "inherited (StringKey k) =
     (if k = ''__proto__'' then ObjectPrototype
      else if k \<in> set object_prototype_names then Intrinsic k
      else Undefined)"
| "inherited (SymbolKey y) = Undefined"

text \<open>\<^verbatim>\<open>target[prop]\<close>: the own property, or else the inherited one.\<close>

definition prop_get_full :: "object \<Rightarrow> property_key \<Rightarrow> jsval" where
  "prop_get_full ob prop = (case ob prop of Some v \<Rightarrow> v | None \<Rightarrow> inherited prop)"

fun is_object :: "jsval \<Rightarrow> bool" where
  "is_object (Obj r) = True"
| "is_object ObjectPrototype = True"
| "is_object (Intrinsic k) = True"
| "is_object _ = False"

text \<open>
  \<^verbatim>\<open>target[prop] = value\<close> (line 44). The object's own property is written; where it has
  none, the property is created on it, because what \<^verbatim>\<open>Object.prototype\<close> holds under
  its string keys are writable data properties. The one exception is \<^verbatim>\<open>__proto__\<close>, an
  accessor: without an own property of that name the assignment calls its setter, which
  ignores a value that is neither an object nor \<^verbatim>\<open>null\<close>, has nothing to do when the value
  is the prototype the object already has, and otherwise replaces the prototype or
  throws; this last case is the one the model does not follow (\<open>None\<close>).
\<close>

definition assign_full :: "object \<Rightarrow> property_key \<Rightarrow> jsval \<Rightarrow> object option" where
  "assign_full ob prop val =
     (if ob prop \<noteq> None \<or> prop \<noteq> StringKey ''__proto__'' then Some (ob(prop \<mapsto> val))
      else if val = ObjectPrototype \<or> \<not> (is_object val \<or> val = Null) then Some ob
      else None)"

subsection \<open>Subscribers that act\<close>

text \<open>
  The functions \<^verbatim>\<open>subscribe\<close> and \<^verbatim>\<open>on\<close> return, as closures over the store, the key given
  to \<^verbatim>\<open>on\<close> and the id.
\<close>

datatype unsubscribe_full = UnsubscribeAll_full nat symbol | UnsubscribeProp_full nat jsval symbol

text \<open>
  What a callback does once called: it returns, it throws a value, or it first writes
  to a store through that store's Proxy (\<^verbatim>\<open>other.set(prop, value)\<close> or
  \<^verbatim>\<open>other.state[prop] = value\<close>) or calls an unsubscribe function, and then goes on. It
  does not catch what a write of its own throws. A callback chooses what it does from its
  arguments and from the contents of the state object when it is called: a property
  subscriber is called as \<^verbatim>\<open>callback(value, oldValue)\<close>, a global one as
  \<^verbatim>\<open>callback({ [prop]: value }, prop)\<close>.
\<close>

datatype reaction =
    Return
  | Throw jsval
  | Write nat property_key jsval reaction
  | Unsubscribe unsubscribe_full reaction

datatype call_args_full = PropArgs jsval jsval | GlobalArgs property_key jsval

type_synonym callback_full = "call_args_full \<Rightarrow> object \<Rightarrow> reaction"

text \<open>
  What is thrown: a value thrown by a callback, or a \<^verbatim>\<open>TypeError\<close> made by the engine
  (\<^verbatim>\<open>Cannot convert a Symbol value to a string\<close>,
  \<^verbatim>\<open>Cannot convert undefined or null to object\<close>).
\<close>

datatype thrown = Raised jsval | TypeError

datatype subscription_full = PropEntry jsval symbol | GlobalEntry symbol

datatype event_full =
    Called subscription_full call_args_full object
  | LoggedSubscriberError key thrown
  | LoggedGlobalError thrown

record store_full =
  stateObj_full :: ref
  subscribers_full :: "(symbol \<times> callback_full) list"
  propSubscribers_full :: "(jsval \<times> (symbol \<times> callback_full) list) list"

record world_full =
  heap_full :: "object list"
  instances_full :: "store_full list"
  symbols_full :: nat
  console_full :: "event_full list"

definition deref_full :: "object list \<Rightarrow> ref \<Rightarrow> object" where
  "deref_full h r = (if r < length h then h ! r else Map.empty)"

definition no_store_full :: store_full where
  "no_store_full = \<lparr>stateObj_full = 0, subscribers_full = [], propSubscribers_full = []\<rparr>"

definition instance_of_full :: "world_full \<Rightarrow> nat \<Rightarrow> store_full" where
  "instance_of_full w s = (if s < length (instances_full w) then instances_full w ! s else no_store_full)"

definition state_of_full :: "world_full \<Rightarrow> nat \<Rightarrow> object" where
  "state_of_full w s = deref_full (heap_full w) (stateObj_full (instance_of_full w s))"

definition valid_store_full :: "world_full \<Rightarrow> nat \<Rightarrow> bool" where
  "valid_store_full w s =
     (s < length (instances_full w) \<and> stateObj_full (instances_full w ! s) < length (heap_full w))"

definition log_event_full :: "event_full \<Rightarrow> world_full \<Rightarrow> world_full" where
  "log_event_full e w = w\<lparr>console_full := console_full w @ [e]\<rparr>"

definition emitted_full :: "world_full \<Rightarrow> world_full \<Rightarrow> event_full list" where
  "emitted_full w w' = drop (length (console_full w)) (console_full w')"

text \<open>
  How a call ends: it returns a value, it throws, or the model does not follow it. The
  first two carry the world the call leaves behind.
\<close>

datatype 'a outcome = Returned 'a world_full | Threw thrown world_full | Unfollowed

text \<open>
  A \<^verbatim>\<open>Map\<close> finds a key by \<^verbatim>\<open>SameValueZero\<close>: \<^verbatim>\<open>NaN\<close> is found under \<^verbatim>\<open>NaN\<close>, and \<^verbatim>\<open>-0\<close>
  is kept and found as \<^verbatim>\<open>+0\<close>.
\<close>

definition map_key :: "jsval \<Rightarrow> jsval" where
  "map_key v = (if v = NegZero then Num 0 else v)"

text \<open>\<^verbatim>\<open>propSubscribers.get(prop)\<close> where there is one, the empty Map where there is none.\<close>

definition subscribers_on_full :: "world_full \<Rightarrow> nat \<Rightarrow> jsval \<Rightarrow> (symbol \<times> callback_full) list" where
  "subscribers_on_full w s prop =
     (case map_of (propSubscribers_full (instance_of_full w s)) (map_key prop) of
        Some m \<Rightarrow> m | None \<Rightarrow> [])"

text \<open>
  \<^verbatim>\<open>() => { subscribers.delete(id); }\<close> and
  \<^verbatim>\<open>() => { if (propSubscribers.has(prop)) { propSubscribers.get(prop).delete(id); } }\<close>.
\<close>

fun call_unsubscribe_full :: "unsubscribe_full \<Rightarrow> world_full \<Rightarrow> world_full" where
  "call_unsubscribe_full (UnsubscribeAll_full s ident) w =
     (let st = instance_of_full w s
      in w\<lparr>instances_full := (instances_full w)
            [s := st\<lparr>subscribers_full := AList.delete ident (subscribers_full st)\<rparr>]\<rparr>)"
| "call_unsubscribe_full (UnsubscribeProp_full s k ident) w =
     (let st = instance_of_full w s
      in case map_of (propSubscribers_full st) (map_key k) of
           Some m \<Rightarrow>
             w\<lparr>instances_full := (instances_full w)
                [s := st\<lparr>propSubscribers_full :=
                     AList.update (map_key k) (AList.delete ident m) (propSubscribers_full st)\<rparr>]\<rparr>
         | None \<Rightarrow> w)"

text \<open>
  Running what a callback does. \<open>nested\<close> is the Proxy write a callback has at hand; an
  exception that leaves it leaves the callback.
\<close>

fun react ::
  "(nat \<Rightarrow> property_key \<Rightarrow> jsval \<Rightarrow> world_full \<Rightarrow> bool outcome) \<Rightarrow> reaction \<Rightarrow> world_full \<Rightarrow> unit outcome" where
  "react nested Return w = Returned () w"
| "react nested (Throw err) w = Threw (Raised err) w"
| "react nested (Write s k val rest) w =
     (case nested s k val w of
        Returned _ w' \<Rightarrow> react nested rest w'
      | Threw e w' \<Rightarrow> Threw e w'
      | Unfollowed \<Rightarrow> Unfollowed)"
| "react nested (Unsubscribe u rest) w = react nested rest (call_unsubscribe_full u w)"

text \<open>The call of a callback is recorded with the state it finds.\<close>

definition invoke_full ::
  "(nat \<Rightarrow> property_key \<Rightarrow> jsval \<Rightarrow> world_full \<Rightarrow> bool outcome) \<Rightarrow> subscription_full \<Rightarrow> callback_full \<Rightarrow>
     call_args_full \<Rightarrow> nat \<Rightarrow> world_full \<Rightarrow> unit outcome" where
  "invoke_full nested sub cb args s w =
     (let seen = state_of_full w s; w' = log_event_full (Called sub args seen) w
      in react nested (cb args seen) w')"

subsection \<open>The \<^verbatim>\<open>set\<close> trap\<close>

text \<open>
  The loop body of lines 50--56. In the \<^verbatim>\<open>catch\<close> block,
  \<^verbatim>\<open>console.error(`Error in subscriber callback for ${prop}:`, error)\<close> converts \<^verbatim>\<open>prop\<close> to a
  string before anything is logged; for a symbol the conversion throws a \<^verbatim>\<open>TypeError\<close>,
  which leaves the \<^verbatim>\<open>catch\<close> block and the loop.
\<close>

definition notify_prop_full ::
  "(nat \<Rightarrow> property_key \<Rightarrow> jsval \<Rightarrow> world_full \<Rightarrow> bool outcome) \<Rightarrow> nat \<Rightarrow> property_key \<Rightarrow> jsval \<Rightarrow> jsval \<Rightarrow>
     symbol \<times> callback_full \<Rightarrow> world_full \<Rightarrow> unit outcome" where
  "notify_prop_full nested s k val oldValue entry w =
     (case invoke_full nested (PropEntry (key_value k) (fst entry)) (snd entry) (PropArgs val oldValue) s w of
        Returned _ w' \<Rightarrow> Returned () w'
      | Threw err w' \<Rightarrow>
          (case k of
             StringKey name \<Rightarrow> Returned () (log_event_full (LoggedSubscriberError name err) w')
           | SymbolKey y \<Rightarrow> Threw TypeError w')
      | Unfollowed \<Rightarrow> Unfollowed)"

text \<open>
  The loop body of lines 60--66; its message
  \<^verbatim>\<open>'Error in global subscriber callback:'\<close> does not mention \<^verbatim>\<open>prop\<close>.
\<close>

definition notify_global_full ::
  "(nat \<Rightarrow> property_key \<Rightarrow> jsval \<Rightarrow> world_full \<Rightarrow> bool outcome) \<Rightarrow> nat \<Rightarrow> property_key \<Rightarrow> jsval \<Rightarrow>
     symbol \<times> callback_full \<Rightarrow> world_full \<Rightarrow> unit outcome" where
  "notify_global_full nested s k val entry w =
     (case invoke_full nested (GlobalEntry (fst entry)) (snd entry) (GlobalArgs k val) s w of
        Returned _ w' \<Rightarrow> Returned () w'
      | Threw err w' \<Rightarrow> Returned () (log_event_full (LoggedGlobalError err) w')
      | Unfollowed \<Rightarrow> Unfollowed)"

text \<open>
  \<^verbatim>\<open>Map.prototype.forEach\<close> on the entries the Map had when the loop began: an entry is
  visited when its turn comes unless it has been deleted by then (\<open>current\<close> reads the
  Map in the world of that moment); an exception that leaves the body ends the loop.
  No entry is added while the loop runs, since no modelled callback subscribes.
\<close>

fun forEach_full ::
  "(symbol \<times> callback_full \<Rightarrow> world_full \<Rightarrow> unit outcome) \<Rightarrow> (world_full \<Rightarrow> (symbol \<times> callback_full) list) \<Rightarrow>
     (symbol \<times> callback_full) list \<Rightarrow> world_full \<Rightarrow> unit outcome" where
  "forEach_full body current [] w = Returned () w"
| "forEach_full body current (entry # rest) w =
     (if fst entry \<in> fst ` set (current w) then
        (case body entry w of
           Returned _ w' \<Rightarrow> forEach_full body current rest w'
         | Threw e w' \<Rightarrow> Threw e w'
         | Unfollowed \<Rightarrow> Unfollowed)
      else forEach_full body current rest w)"

text \<open>
  The two notifications of the trap:
  \<^verbatim>\<open>if (propSubscribers.has(prop)) { propSubscribers.get(prop).forEach(...) }\<close> (lines 49--57)
  and \<^verbatim>\<open>subscribers.forEach(...)\<close> (lines 60--66).
\<close>

definition notify_prop_subscribers ::
  "(nat \<Rightarrow> property_key \<Rightarrow> jsval \<Rightarrow> world_full \<Rightarrow> bool outcome) \<Rightarrow> nat \<Rightarrow> property_key \<Rightarrow> jsval \<Rightarrow> jsval \<Rightarrow>
     world_full \<Rightarrow> unit outcome" where
  "notify_prop_subscribers nested s k val oldValue w =
     (case map_of (propSubscribers_full (instance_of_full w s)) (key_value k) of
        Some m \<Rightarrow>
          forEach_full (notify_prop_full nested s k val oldValue)
            (\<lambda>w'. subscribers_on_full w' s (key_value k)) m w
      | None \<Rightarrow> Returned () w)"

definition notify_global_subscribers ::
  "(nat \<Rightarrow> property_key \<Rightarrow> jsval \<Rightarrow> world_full \<Rightarrow> bool outcome) \<Rightarrow> nat \<Rightarrow> property_key \<Rightarrow> jsval \<Rightarrow>
     world_full \<Rightarrow> unit outcome" where
  "notify_global_subscribers nested s k val w =
     forEach_full (notify_global_full nested s k val)
       (\<lambda>w'. subscribers_full (instance_of_full w' s)) (subscribers_full (instance_of_full w s)) w"

text \<open>
  The \<^verbatim>\<open>set\<close> trap (lines 40--70), given the Proxy write its callbacks have at hand:
  \<^verbatim>\<open>const oldValue = target[prop]; target[prop] = value;\<close> then, \<^verbatim>\<open>if (oldValue !== value)\<close>,
  the two notifications; it ends with \<^verbatim>\<open>return true\<close>.
\<close>

definition set_trap ::
  "(nat \<Rightarrow> property_key \<Rightarrow> jsval \<Rightarrow> world_full \<Rightarrow> bool outcome) \<Rightarrow> nat \<Rightarrow> property_key \<Rightarrow> jsval \<Rightarrow>
     world_full \<Rightarrow> bool outcome" where
  "set_trap nested s k val w =
     (let target = stateObj_full (instance_of_full w s);
          oldValue = prop_get_full (deref_full (heap_full w) target) k
      in case assign_full (deref_full (heap_full w) target) k val of
           None \<Rightarrow> Unfollowed
         | Some ob \<Rightarrow>
             (let w1 = w\<lparr>heap_full := (heap_full w)[target := ob]\<rparr>
              in if \<not> strict_eq oldValue val then
                   (case notify_prop_subscribers nested s k val oldValue w1 of
                      Returned _ w2 \<Rightarrow>
                        (case notify_global_subscribers nested s k val w2 of
                           Returned _ w3 \<Rightarrow> Returned True w3
                         | Threw e w' \<Rightarrow> Threw e w'
                         | Unfollowed \<Rightarrow> Unfollowed)
                    | Threw e w' \<Rightarrow> Threw e w'
                    | Unfollowed \<Rightarrow> Unfollowed)
                 else Returned True w1))"

text \<open>
  A write through the Proxy, \<^verbatim>\<open>state[prop] = value\<close>. The first argument bounds how deep
  writes may nest, a callback of one write writing in its turn: with depth \<open>Suc d\<close> the
  callbacks have writes of depth \<open>d\<close> at hand, and a write of depth \<open>0\<close> is not followed.
\<close>

primrec proxy_set_full :: "nat \<Rightarrow> nat \<Rightarrow> property_key \<Rightarrow> jsval \<Rightarrow> world_full \<Rightarrow> bool outcome" where
  "proxy_set_full 0 = (\<lambda>s k val w. Unfollowed)"
| "proxy_set_full (Suc depth) = set_trap (proxy_set_full depth)"

text \<open>The \<^verbatim>\<open>get\<close> trap (lines 35--38): \<^verbatim>\<open>return target[prop]\<close>.\<close>

definition proxy_get_full :: "nat \<Rightarrow> property_key \<Rightarrow> world_full \<Rightarrow> jsval" where
  "proxy_get_full s k w = prop_get_full (state_of_full w s) k"

subsection \<open>The methods of the store\<close>

text \<open>
  \<^verbatim>\<open>get(prop) { return state[prop]; }\<close> and
  \<^verbatim>\<open>set(prop, value) { state[prop] = value; return value; }\<close> (lines 79--87).
\<close>

definition store_get_full :: "nat \<Rightarrow> property_key \<Rightarrow> world_full \<Rightarrow> jsval" where
  "store_get_full s k w = proxy_get_full s k w"

definition store_set_full :: "nat \<Rightarrow> nat \<Rightarrow> property_key \<Rightarrow> jsval \<Rightarrow> world_full \<Rightarrow> jsval outcome" where
  "store_set_full depth s k val w =
     (case proxy_set_full depth s k val w of
        Returned _ w' \<Rightarrow> Returned val w'
      | Threw e w' \<Rightarrow> Threw e w'
      | Unfollowed \<Rightarrow> Unfollowed)"

text \<open>
  \<^verbatim>\<open>update(updates) { Object.entries(updates).forEach(([key, value]) => { state[key] = value; }); }\<close>
  (lines 90--94). \<^verbatim>\<open>Object.entries\<close> throws a \<^verbatim>\<open>TypeError\<close> for \<^verbatim>\<open>undefined\<close> and \<^verbatim>\<open>null\<close>,
  gives one entry for each character of a string, keyed by its index, no entry for
  another primitive, and for an object its own enumerable string-keyed properties,
  which are given here as the list of the entries in the order of \<^verbatim>\<open>Object.entries\<close>
  (data properties; each key once). A function is such an object: it comes with what a
  call of it would return for a state and with its own enumerable properties, and
  nothing in \<^verbatim>\<open>update\<close> calls it. The method returns \<^verbatim>\<open>undefined\<close>.
\<close>

datatype update_arg =
    Nullish
  | Scalar
  | StringValue string
  | Properties "(key \<times> jsval) list"
  | Function "object \<Rightarrow> (key \<times> jsval) list" "(key \<times> jsval) list"

fun decimal :: "nat \<Rightarrow> string" where
  "decimal n =
     (if n < 10 then [''0123456789'' ! n] else decimal (n div 10) @ [''0123456789'' ! (n mod 10)])"

declare decimal.simps [simp del]

fun index_entries :: "nat \<Rightarrow> string \<Rightarrow> (key \<times> jsval) list" where
  "index_entries i [] = []"
| "index_entries i (c # cs) = (decimal i, Str [c]) # index_entries (Suc i) cs"

fun object_entries :: "update_arg \<Rightarrow> thrown + (key \<times> jsval) list" where
  "object_entries Nullish = Inl TypeError"
| "object_entries Scalar = Inr []"
| "object_entries (StringValue str) = Inr (index_entries 0 str)"
| "object_entries (Properties es) = Inr es"
| "object_entries (Function body es) = Inr es"

text \<open>\<^verbatim>\<open>Array.prototype.forEach\<close> with the body \<^verbatim>\<open>([key, value]) => { state[key] = value; }\<close>.\<close>

fun update_entries ::
  "(property_key \<Rightarrow> jsval \<Rightarrow> world_full \<Rightarrow> bool outcome) \<Rightarrow> (key \<times> jsval) list \<Rightarrow> world_full \<Rightarrow> unit outcome" where
  "update_entries nested [] w = Returned () w"
| "update_entries nested (entry # es) w =
     (case nested (StringKey (fst entry)) (snd entry) w of
        Returned _ w' \<Rightarrow> update_entries nested es w'
      | Threw e w' \<Rightarrow> Threw e w'
      | Unfollowed \<Rightarrow> Unfollowed)"

definition store_update :: "nat \<Rightarrow> nat \<Rightarrow> update_arg \<Rightarrow> world_full \<Rightarrow> jsval outcome" where
  "store_update depth s updates w =
     (case object_entries updates of
        Inl e \<Rightarrow> Threw e w
      | Inr es \<Rightarrow>
          (case update_entries (proxy_set_full depth s) es w of
             Returned _ w' \<Rightarrow> Returned Undefined w'
           | Threw e w' \<Rightarrow> Threw e w'
           | Unfollowed \<Rightarrow> Unfollowed))"

text \<open>
  \<^verbatim>\<open>subscribe(callback)\<close> (lines 97--105) and \<^verbatim>\<open>on(prop, callback)\<close> (lines 108--122);
  \<^verbatim>\<open>prop\<close> is a \<^verbatim>\<open>Map\<close> key here, kept as the value it is.
\<close>

definition store_subscribe_full :: "nat \<Rightarrow> callback_full \<Rightarrow> world_full \<Rightarrow> unsubscribe_full \<times> world_full" where
  "store_subscribe_full s cb w =
     (let ident = symbols_full w; st = instance_of_full w s
      in (UnsubscribeAll_full s ident,
          w\<lparr>instances_full := (instances_full w)
               [s := st\<lparr>subscribers_full := AList.update ident cb (subscribers_full st)\<rparr>],
            symbols_full := Suc ident\<rparr>))"

definition store_on_full :: "nat \<Rightarrow> jsval \<Rightarrow> callback_full \<Rightarrow> world_full \<Rightarrow> unsubscribe_full \<times> world_full" where
  "store_on_full s k cb w =
     (let st = instance_of_full w s;
          ps = (if map_of (propSubscribers_full st) (map_key k) = None
                then AList.update (map_key k) [] (propSubscribers_full st)
                else propSubscribers_full st);
          ident = symbols_full w;
          m = (case map_of ps (map_key k) of Some m \<Rightarrow> m | None \<Rightarrow> [])
      in (UnsubscribeProp_full s k ident,
          w\<lparr>instances_full := (instances_full w)
               [s := st\<lparr>propSubscribers_full := AList.update (map_key k) (AList.update ident cb m) ps\<rparr>],
            symbols_full := Suc ident\<rparr>))"

text \<open>
  \<^verbatim>\<open>getState() { return { ...stateObj }; }\<close> (lines 125--127): a new object with the own
  properties of the state object, under strings and under symbols.
\<close>

definition store_getState_full :: "nat \<Rightarrow> world_full \<Rightarrow> jsval \<times> world_full" where
  "store_getState_full s w =
     (Obj (length (heap_full w)), w\<lparr>heap_full := heap_full w @ [state_of_full w s]\<rparr>)"

subsection \<open>Reading the trace of the second model\<close>

text \<open>
  The world a call leaves behind; a call that is not followed starts from \<open>w\<close> and is
  given \<open>w\<close>.
\<close>

definition after_full :: "world_full \<Rightarrow> 'a outcome \<Rightarrow> world_full" where
  "after_full w outcome =
     (case outcome of Returned _ w' \<Rightarrow> w' | Threw _ w' \<Rightarrow> w' | Unfollowed \<Rightarrow> w)"

fun returns :: "'a outcome \<Rightarrow> bool" where
  "returns (Returned x w) = True"
| "returns _ = False"

fun throws :: "'a outcome \<Rightarrow> bool" where
  "throws (Threw e w) = True"
| "throws _ = False"

fun called_by :: "event_full \<Rightarrow> subscription_full list" where
  "called_by (Called sub args seen) = [sub]"
| "called_by _ = []"

text \<open>The subscriptions whose callbacks were called, in the order of the calls.\<close>

definition called_subscriptions :: "event_full list \<Rightarrow> subscription_full list" where
  "called_subscriptions evs = concat (map called_by evs)"

fun found_by :: "event_full \<Rightarrow> object list" where
  "found_by (Called sub args seen) = [seen]"
| "found_by _ = []"

text \<open>The state each called callback found, in the order of the calls.\<close>

definition found_states :: "event_full list \<Rightarrow> object list" where
  "found_states evs = concat (map found_by evs)"

fun logged_by :: "event_full \<Rightarrow> thrown list" where
  "logged_by (LoggedSubscriberError name err) = [err]"
| "logged_by (LoggedGlobalError err) = [err]"
| "logged_by _ = []"

text \<open>The errors written to \<^verbatim>\<open>console.error\<close>.\<close>

definition logged_errors :: "event_full list \<Rightarrow> thrown list" where
  "logged_errors evs = concat (map logged_by evs)"

subsection \<open>Subscribers that only observe\<close>

text \<open>
  A callback observes when all it ever does is return or throw. \<open>observing w s\<close>: every
  callback subscribed to the store \<open>s\<close> observes.
\<close>

fun inert :: "reaction \<Rightarrow> bool" where
  "inert Return = True"
| "inert (Throw err) = True"
| "inert (Write s k val rest) = False"
| "inert (Unsubscribe u rest) = False"

definition callbacks_of :: "store_full \<Rightarrow> callback_full list" where
  "callbacks_of st =
     map snd (subscribers_full st) @ concat (map (\<lambda>entry. map snd (snd entry)) (propSubscribers_full st))"

definition observing :: "world_full \<Rightarrow> nat \<Rightarrow> bool" where
  "observing w s =
     (\<forall>cb \<in> set (callbacks_of (instance_of_full w s)). \<forall>args seen. inert (cb args seen))"

text \<open>
  A call that has been followed and has changed nothing but the trace: the world it
  leaves behind is \<open>w\<close> with events appended.
\<close>

definition only_logged :: "world_full \<Rightarrow> 'a outcome \<Rightarrow> bool" where
  "only_logged w outcome =
     (case outcome of
        Returned _ w' \<Rightarrow> \<exists>evs. w' = w\<lparr>console_full := console_full w @ evs\<rparr>
      | Threw _ w' \<Rightarrow> \<exists>evs. w' = w\<lparr>console_full := console_full w @ evs\<rparr>
      | Unfollowed \<Rightarrow> False)"

text \<open>The values the callbacks of a subscriber Map throw when called with \<open>args\<close>.\<close>

definition raised_by :: "call_args_full \<Rightarrow> object \<Rightarrow> (symbol \<times> callback_full) list \<Rightarrow> thrown list" where
  "raised_by args seen m =
     concat (map (\<lambda>entry. case snd entry args seen of Throw err \<Rightarrow> [Raised err] | _ \<Rightarrow> []) m)"

subsection \<open>What one assignment leaves behind when the subscribers observe\<close>

text \<open>
  The state object after \<^verbatim>\<open>target[prop] = value\<close>, and the world with that object in
  place of the state object of \<open>s\<close>.
\<close>

definition assigned :: "object \<Rightarrow> property_key \<Rightarrow> jsval \<Rightarrow> object" where
  "assigned ob prop val = (case assign_full ob prop val of Some ob' \<Rightarrow> ob' | None \<Rightarrow> ob)"

definition written :: "world_full \<Rightarrow> nat \<Rightarrow> property_key \<Rightarrow> jsval \<Rightarrow> world_full" where
  "written w s prop val =
     w\<lparr>heap_full := (heap_full w)
          [stateObj_full (instance_of_full w s) := assigned (state_of_full w s) prop val]\<rparr>"

text \<open>
  Whether the assignment writes an own property (it does unless it goes to the
  \<^verbatim>\<open>__proto__\<close> setter), and whether the model follows it.
\<close>

definition writes_own :: "object \<Rightarrow> property_key \<Rightarrow> bool" where
  "writes_own ob prop = (ob prop \<noteq> None \<or> prop \<noteq> StringKey ''__proto__'')"

definition keeps_prototype :: "object \<Rightarrow> property_key \<Rightarrow> jsval \<Rightarrow> bool" where
  "keeps_prototype ob prop val = (assign_full ob prop val \<noteq> None)"

text \<open>
  The events of one observing subscriber: its call, and the report when it throws. With
  them the outcome of the \<^verbatim>\<open>set\<close> trap for a string key is written without loops and
  exceptions (lemma \<open>set_trap_string\<close>).
\<close>

definition prop_events_full ::
  "key \<Rightarrow> jsval \<Rightarrow> jsval \<Rightarrow> object \<Rightarrow> symbol \<times> callback_full \<Rightarrow> event_full list" where
  "prop_events_full name val oldValue seen entry =
     Called (PropEntry (Str name) (fst entry)) (PropArgs val oldValue) seen #
     (case snd entry (PropArgs val oldValue) seen of
        Throw err \<Rightarrow> [LoggedSubscriberError name (Raised err)] | _ \<Rightarrow> [])"

definition global_events_full ::
  "property_key \<Rightarrow> jsval \<Rightarrow> object \<Rightarrow> symbol \<times> callback_full \<Rightarrow> event_full list" where
  "global_events_full prop val seen entry =
     Called (GlobalEntry (fst entry)) (GlobalArgs prop val) seen #
     (case snd entry (GlobalArgs prop val) seen of
        Throw err \<Rightarrow> [LoggedGlobalError (Raised err)] | _ \<Rightarrow> [])"

definition set_events_full :: "world_full \<Rightarrow> nat \<Rightarrow> key \<Rightarrow> jsval \<Rightarrow> event_full list" where
  "set_events_full w s name val =
     (let oldValue = prop_get_full (state_of_full w s) (StringKey name);
          seen = state_of_full (written w s (StringKey name) val) s
      in if strict_eq oldValue val then []
         else concat (map (prop_events_full name val oldValue seen) (subscribers_on_full w s (Str name)))
              @ concat (map (global_events_full (StringKey name) val seen)
                             (subscribers_full (instance_of_full w s))))"

definition set_result_full :: "world_full \<Rightarrow> nat \<Rightarrow> key \<times> jsval \<Rightarrow> world_full" where
  "set_result_full w s entry =
     (written w s (StringKey (fst entry)) (snd entry))
       \<lparr>console_full := console_full w @ set_events_full w s (fst entry) (snd entry)\<rparr>"

fun update_result_full :: "world_full \<Rightarrow> nat \<Rightarrow> (key \<times> jsval) list \<Rightarrow> world_full" where
  "update_result_full w s [] = w"
| "update_result_full w s (entry # es) = update_result_full (set_result_full w s entry) s es"



subsection \<open>The caller's read of a returned object\<close>


subsection \<open>Example worlds of the second model\<close>

text \<open>
  Callbacks: one that returns, one that throws, one that sets \<^verbatim>\<open>count\<close> to \<^verbatim>\<open>100\<close> on the
  store \<open>0\<close> whenever it is called with another value, and one that cancels the second
  subscription on \<^verbatim>\<open>count\<close>.
\<close>

definition quiet_full :: callback_full where
  "quiet_full args seen = Return"

definition failing_full :: callback_full where
  "failing_full args seen = Throw (Str ''boom'')"

definition capping :: callback_full where
  "capping args seen =
     (case args of
        PropArgs val oldValue \<Rightarrow>
          (if val = Num 100 then Return else Write 0 (StringKey ''count'') (Num 100) Return)
      | GlobalArgs prop val \<Rightarrow> Return)"

definition cancelling :: callback_full where
  "cancelling args seen = Unsubscribe (UnsubscribeProp_full 0 (Str ''count'') 1) Return"

text \<open>
  \<^verbatim>\<open>const counter = createStore('counter', { count: 0 })\<close>, and
  \<^verbatim>\<open>state => ({ count: state.count + 1 })\<close>.
\<close>

definition counter_full :: world_full where
  "counter_full =
     \<lparr>heap_full = [[StringKey ''count'' \<mapsto> Num 0]],
      instances_full = [\<lparr>stateObj_full = 0, subscribers_full = [], propSubscribers_full = []\<rparr>],
      symbols_full = 0, console_full = []\<rparr>"


text \<open>
  The counter with four subscribers, registered in this order: a throwing and a
  returning one on \<^verbatim>\<open>count\<close>, then a throwing and a returning global one.
\<close>

definition watched_full :: world_full where
  "watched_full =
     snd (store_subscribe_full 0 quiet_full
       (snd (store_subscribe_full 0 failing_full
         (snd (store_on_full 0 (Str ''count'') quiet_full
           (snd (store_on_full 0 (Str ''count'') failing_full counter_full)))))))"

text \<open>
  The same four subscribers on a symbol:
  \<^verbatim>\<open>const tag = Symbol(); counter.on(tag, failing); counter.on(tag, quiet); counter.subscribe(failing); counter.subscribe(quiet)\<close>.
\<close>

definition tagged_full :: world_full where
  "tagged_full =
     snd (store_subscribe_full 0 quiet_full
       (snd (store_subscribe_full 0 failing_full
         (snd (store_on_full 0 (Sym 7) quiet_full
           (snd (store_on_full 0 (Sym 7) failing_full counter_full)))))))"


text \<open>\<^verbatim>\<open>const pair = createStore('pair', { a: 0, b: 0 }); pair.subscribe(quiet)\<close>.\<close>

definition pair_full :: world_full where
  "pair_full =
     snd (store_subscribe_full 0 quiet_full
       \<lparr>heap_full = [[StringKey ''a'' \<mapsto> Num 0, StringKey ''b'' \<mapsto> Num 0]],
        instances_full = [\<lparr>stateObj_full = 0, subscribers_full = [], propSubscribers_full = []\<rparr>],
        symbols_full = 0, console_full = []\<rparr>)"

text \<open>
  Subscribers that act:
  \<^verbatim>\<open>counter.on('count', capping); counter.on('count', quiet)\<close>, and
  \<^verbatim>\<open>counter.on('count', cancelling); const off = counter.on('count', quiet)\<close>, where
  \<^verbatim>\<open>cancelling\<close> calls \<^verbatim>\<open>off\<close>.
\<close>

definition capped_full :: world_full where
  "capped_full =
     snd (store_on_full 0 (Str ''count'') quiet_full
       (snd (store_on_full 0 (Str ''count'') capping counter_full)))"

definition cancelled_full :: world_full where
  "cancelled_full =
     snd (store_on_full 0 (Str ''count'') quiet_full
       (snd (store_on_full 0 (Str ''count'') cancelling counter_full)))"

subsection \<open>The first model inside the second\<close>

text \<open>
  A world of the first model is a world of the second: its objects have no property
  under a symbol, its subscribers observe, the keys of \<^verbatim>\<open>propSubscribers\<close> are strings, and the
  warnings of \<^verbatim>\<open>createStore\<close> are left out of the trace. \<open>lift_world\<close> is that world. What a
  lifted callback is given, it reads as the first model's callback does.
\<close>

definition lift_obj :: "obj \<Rightarrow> object" where
  "lift_obj ob k = (case k of StringKey name \<Rightarrow> ob name | SymbolKey y \<Rightarrow> None)"

definition lower_obj :: "object \<Rightarrow> obj" where
  "lower_obj ob name = ob (StringKey name)"

fun lower_args :: "call_args_full \<Rightarrow> call_args" where
  "lower_args (PropArgs val oldValue) = PropChange val oldValue"
| "lower_args (GlobalArgs (StringKey name) val) = StateChange name val"
| "lower_args (GlobalArgs (SymbolKey y) val) = StateChange [] val"

definition lift_callback :: "callback \<Rightarrow> callback_full" where
  "lift_callback cb args seen =
     (case cb (lower_args args) (lower_obj seen) of None \<Rightarrow> Return | Some err \<Rightarrow> Throw err)"

definition lift_entries :: "(symbol \<times> callback) list \<Rightarrow> (symbol \<times> callback_full) list" where
  "lift_entries m = map (\<lambda>entry. (fst entry, lift_callback (snd entry))) m"

definition lift_store :: "store \<Rightarrow> store_full" where
  "lift_store st =
     \<lparr>stateObj_full = stateObj st,
      subscribers_full = lift_entries (subscribers st),
      propSubscribers_full = map (\<lambda>entry. (Str (fst entry), lift_entries (snd entry))) (propSubscribers st)\<rparr>"

fun lift_args :: "call_args \<Rightarrow> call_args_full" where
  "lift_args (PropChange val oldValue) = PropArgs val oldValue"
| "lift_args (StateChange name val) = GlobalArgs (StringKey name) val"

fun lift_subscription :: "subscription \<Rightarrow> subscription_full" where
  "lift_subscription (OnProp name ident) = PropEntry (Str name) ident"
| "lift_subscription (OnAll ident) = GlobalEntry ident"

fun lift_event :: "event \<Rightarrow> event_full list" where
  "lift_event (Invoked sub args seen) = [Called (lift_subscription sub) (lift_args args) (lift_obj seen)]"
| "lift_event (ErrorInSubscriber name err) = [LoggedSubscriberError name (Raised err)]"
| "lift_event (ErrorInGlobalSubscriber err) = [LoggedGlobalError (Raised err)]"
| "lift_event (WarnStoreExists name) = []"

definition lift_world :: "world \<Rightarrow> world_full" where
  "lift_world w =
     \<lparr>heap_full = map lift_obj (heap w),
      instances_full = map lift_store (instances w),
      symbols_full = symbols w,
      console_full = concat (map lift_event (console w))\<rparr>"

fun lift_unsubscribe :: "unsubscribe \<Rightarrow> unsubscribe_full" where
  "lift_unsubscribe (UnsubscribeAll s ident) = UnsubscribeAll_full s ident"
| "lift_unsubscribe (UnsubscribeProp s name ident) = UnsubscribeProp_full s (Str name) ident"

text \<open>
  The names \<^verbatim>\<open>Object.prototype\<close> has no property under. For these the two models agree
  (lemmas \<open>first_model_agrees\<close>, \<open>get_lift\<close>, \<open>subscribe_lift\<close>, \<open>on_lift\<close> and
  \<open>unsubscribe_lift\<close>).
\<close>

definition ordinary :: "key \<Rightarrow> bool" where
  "ordinary name = (name \<noteq> ''__proto__'' \<and> name \<notin> set object_prototype_names)"


section \<open>Properties of the first model\<close>

subsection \<open>Frame lemmas\<close>

lemma state_of_console [simp]: "state_of (w\<lparr>console := c\<rparr>) s = state_of w s"
  by (simp add: state_of_def instance_of_def)

lemma instance_of_console [simp]: "instance_of (w\<lparr>console := c\<rparr>) s = instance_of w s"
  by (simp add: instance_of_def)

lemma instance_of_assign [simp]: "instance_of (assign r k v w) s = instance_of w s"
  by (simp add: instance_of_def assign_def)

lemma console_assign [simp]: "console (assign r k v w) = console w"
  by (simp add: assign_def)

lemma valid_store_console [simp]: "valid_store (w\<lparr>console := c\<rparr>) s = valid_store w s"
  by (simp add: valid_store_def)

lemma valid_store_assign [simp]: "valid_store (assign r k v w) s = valid_store w s"
  by (simp add: valid_store_def assign_def)

lemma state_of_assign_own:
  "valid_store w s \<Longrightarrow>
     state_of (assign (stateObj (instance_of w s)) k v w) s = (state_of w s)(k \<mapsto> v)"
  by (simp add: state_of_def valid_store_def instance_of_def assign_def deref_def)

lemma emitted_append [simp]: "emitted w (w'\<lparr>console := console w @ evs\<rparr>) = evs"
  by (simp add: emitted_def)

lemma emitted_self [simp]: "emitted w w = []"
  by (simp add: emitted_def)

lemma after_Inr [simp]: "after (Inr (x, w)) = w"
  by (simp add: after_def)

subsection \<open>The set trap of the first model always returns\<close>

text \<open>
  Each loop body catches what its callback throws and, the key being a string, logs it
  without fail; so every \<^verbatim>\<open>forEach\<close> of the trap runs to its end, and the trap returns the
  assigned world with the subscribers' events appended to the trace.
\<close>

lemma notify_prop_eq:
  "notify_prop s prop val old entry w =
     Inr (w\<lparr>console := console w @ prop_events prop val old (state_of w s) entry\<rparr>)"
  by (simp add: notify_prop_def invoke_def log_event_def prop_events_def Let_def split: option.split)

lemma notify_global_eq:
  "notify_global s prop val entry w =
     Inr (w\<lparr>console := console w @ global_events prop val (state_of w s) entry\<rparr>)"
  by (simp add: notify_global_def invoke_def log_event_def global_events_def Let_def split: option.split)

lemma forEach_append_console:
  assumes "\<And>x w. body x w = Inr (w\<lparr>console := console w @ ev (state_of w s) x\<rparr>)"
  shows "forEach body xs w = Inr (w\<lparr>console := console w @ concat (map (ev (state_of w s)) xs)\<rparr>)"
proof (induction xs arbitrary: w)
  case Nil
  show ?case by simp
next
  case (Cons x xs)
  show ?case by (simp add: assms[of x w] Cons.IH)
qed

lemma forEach_notify_prop:
  "forEach (notify_prop s prop val old) m w =
     Inr (w\<lparr>console := console w @ concat (map (prop_events prop val old (state_of w s)) m)\<rparr>)"
  by (rule forEach_append_console) (rule notify_prop_eq)

lemma forEach_notify_global:
  "forEach (notify_global s prop val) m w =
     Inr (w\<lparr>console := console w @ concat (map (global_events prop val (state_of w s)) m)\<rparr>)"
  by (rule forEach_append_console) (rule notify_global_eq)

lemma proxy_set_eq: "proxy_set s prop val w = Inr (True, set_result w s (prop, val))"
  by (simp add: proxy_set_def set_result_def set_events_def subscribers_on_def Let_def
        forEach_notify_prop forEach_notify_global state_of_def split: option.split)


lemma emitted_set_result [simp]:
  "emitted w (set_result w s entry) = set_events w s (fst entry) (snd entry)"
  by (simp add: set_result_def)

lemma valid_store_set_result [simp]: "valid_store (set_result w s' entry) s = valid_store w s"
  by (simp add: set_result_def)
subsection \<open>Projections of the trace\<close>

lemma invoked_append [simp]:
  "invoked_subscriptions (xs @ ys) = invoked_subscriptions xs @ invoked_subscriptions ys"
  by (simp add: invoked_subscriptions_def)

lemma invoked_Nil [simp]: "invoked_subscriptions [] = []"
  by (simp add: invoked_subscriptions_def)

lemma invoked_prop_event [simp]:
  "invoked_subscriptions (prop_events prop val old seen entry) = [OnProp prop (fst entry)]"
  by (cases "snd entry (PropChange val old) seen") (simp_all add: prop_events_def invoked_subscriptions_def)

lemma invoked_global_event [simp]:
  "invoked_subscriptions (global_events prop val seen entry) = [OnAll (fst entry)]"
  by (cases "snd entry (StateChange prop val) seen") (simp_all add: global_events_def invoked_subscriptions_def)




lemma instance_of_heap [simp]: "instance_of (w\<lparr>heap := h\<rparr>) s = instance_of w s"
  by (simp add: instance_of_def)
subsection \<open>Unsubscribing\<close>

lemma instance_of_instances_update:
  "instance_of (w\<lparr>instances := (instances w)[s := st]\<rparr>) s' =
     (if s' = s \<and> s < length (instances w) then st else instance_of w s')"
  by (simp add: instance_of_def)

lemma heap_call_unsubscribe [simp]: "heap (call_unsubscribe u w) = heap w"
  by (cases u) (simp_all add: Let_def split: option.split)

lemma console_call_unsubscribe [simp]: "console (call_unsubscribe u w) = console w"
  by (cases u) (simp_all add: Let_def split: option.split)


lemma stateObj_unsubscribe [simp]:
  "stateObj (instance_of (call_unsubscribe u w) s) = stateObj (instance_of w s)"
  by (cases u) (auto simp add: Let_def instance_of_instances_update split: option.split)

lemma state_of_unsubscribe [simp]: "state_of (call_unsubscribe u w) s = state_of w s"
  by (simp add: state_of_def)












lemma symbols_of_no_store [simp]: "symbols_of no_store = {}"
  by (simp add: symbols_of_def no_store_def)








lemma symbols_of_subscriber:
  "entry \<in> set (subscribers st) \<Longrightarrow> fst entry \<in> symbols_of st"
  by (auto simp add: symbols_of_def)







lemma fresh_symbols_console [simp]: "fresh_symbols (w\<lparr>console := c\<rparr>) = fresh_symbols w"
  by (simp add: fresh_symbols_def)

lemma fresh_symbols_assign [simp]: "fresh_symbols (assign r k v w) = fresh_symbols w"
  by (simp add: fresh_symbols_def assign_def)

lemma fresh_symbols_set_result [simp]: "fresh_symbols (set_result w s entry) = fresh_symbols w"
  by (simp add: set_result_def)

lemma fresh_symbols_createStore:
  "fresh_symbols w \<Longrightarrow> fresh_symbols (snd (createStore name initialState w))"
  by (auto simp add: createStore_def log_event_def Let_def fresh_symbols_def symbols_of_def
        split: option.split)

lemma fresh_symbols_getState [simp]: "fresh_symbols (snd (store_getState s w)) = fresh_symbols w"
  by (simp add: store_getState_def fresh_symbols_def)

lemma fresh_symbols_empty: "fresh_symbols empty_world"
  by (simp add: fresh_symbols_def empty_world_def)

subsection \<open>Unsubscribing again, later\<close>













subsection \<open>The registry and the copies\<close>

lemma createStore_existing:
  "map_of (stores w) name = Some s \<Longrightarrow>
     createStore name initialState w = (s, log_event (WarnStoreExists name) w)"
  by (simp add: createStore_def)

lemma createStore_new:
  "map_of (stores w) name = None \<Longrightarrow>
     createStore name initialState w =
       (length (instances w),
        w\<lparr>heap := heap w @ [spread (heap w) initialState],
          instances := instances w @
            [\<lparr>stateObj = length (heap w), subscribers = [], propSubscribers = []\<rparr>],
          stores := AList.update name (length (instances w)) (stores w)\<rparr>)"
  by (simp add: createStore_def Let_def)

lemma createStore_registers:
  "map_of (stores (snd (createStore name initialState w))) name =
     Some (fst (createStore name initialState w))"
  by (cases "map_of (stores w) name")
     (simp_all add: createStore_new createStore_existing log_event_def update_conv')

lemma createStore_keeps_registered:
  "map_of (stores w) name = Some s \<Longrightarrow>
     map_of (stores (snd (createStore name' initialState w))) name = Some s"
  by (cases "map_of (stores w) name'")
     (auto simp add: createStore_new createStore_existing log_event_def update_conv')

lemma getStore_eq:
  "getStore name w = (case map_of (stores w) name of None \<Rightarrow> NullValue | Some s \<Rightarrow> StoreObject s)"
  by (simp add: getStore_def stores_get_def Let_def split: option.split)

lemma heap_getState: "heap (snd (store_getState s w)) = heap w @ [state_of w s]"
  by (simp add: store_getState_def)

lemma instances_getState [simp]: "instances (snd (store_getState s w)) = instances w"
  by (simp add: store_getState_def)

lemma console_getState [simp]: "console (snd (store_getState s w)) = console w"
  by (simp add: store_getState_def)

lemma instance_of_getState [simp]: "instance_of (snd (store_getState s w)) s' = instance_of w s'"
  by (simp add: instance_of_def)

lemma valid_stateObj: "valid_store w s \<Longrightarrow> stateObj (instance_of w s) < length (heap w)"
  by (simp add: valid_store_def instance_of_def)

lemma getState_read:
  "member (fst (store_getState s w)) k (snd (store_getState s w)) = store_get s k w"
  by (simp add: store_getState_def member_def deref_def store_get_def proxy_get_def)

subsection \<open>Valid stores stay valid\<close>

lemma valid_store_createStore:
  "valid_store w s \<Longrightarrow> valid_store (snd (createStore name initialState w)) s"
  by (cases "map_of (stores w) name")
     (simp_all add: createStore_new createStore_existing log_event_def valid_store_def nth_append)

lemma valid_store_created:
  "map_of (stores w) name = None \<Longrightarrow>
     valid_store (snd (createStore name initialState w)) (fst (createStore name initialState w))"
  by (simp add: createStore_new valid_store_def)

lemma valid_store_subscribe:
  "valid_store w s \<Longrightarrow> valid_store (snd (store_subscribe s' cb w)) s"
  by (cases "s = s'") (simp_all add: store_subscribe_def Let_def valid_store_def instance_of_def)

lemma valid_store_on:
  "valid_store w s \<Longrightarrow> valid_store (snd (store_on s' k cb w)) s"
  by (cases "s = s'") (simp_all add: store_on_def Let_def valid_store_def instance_of_def)

lemma valid_store_unsubscribe:
  "valid_store w s \<Longrightarrow> valid_store (call_unsubscribe u w) s"
  by (cases u; cases "s = handle_store u")
     (simp_all add: Let_def valid_store_def instance_of_def split: option.split)

lemma valid_store_getState:
  "valid_store w s \<Longrightarrow> valid_store (snd (store_getState s' w)) s"
  by (simp add: store_getState_def valid_store_def)

subsection \<open>The example worlds, evaluated\<close>

lemma module_setup_eq:
  "module_setup =
     (0, \<lparr>heap = [Map.empty, Map.empty],
      instances = [\<lparr>stateObj = 1, subscribers = [], propSubscribers = []\<rparr>],
      stores = [(''default'', 0)], symbols = 0, console = []\<rparr>)"
  by (simp add: module_setup_def createStore_def empty_world_def spread_def deref_def)

lemma module_world_eq:
  "module_world =
     \<lparr>heap = [Map.empty, Map.empty],
      instances = [\<lparr>stateObj = 1, subscribers = [], propSubscribers = []\<rparr>],
      stores = [(''default'', 0)], symbols = 0, console = []\<rparr>"
  by (simp add: module_world_def module_setup_eq)

lemma defaultStore_eq: "defaultStore = 0"
  by (simp add: defaultStore_def module_setup_eq)

lemma counter_setup_eq:
  "counter_setup =
     (1, \<lparr>heap = [Map.empty, Map.empty, [''count'' \<mapsto> Num 0], [''count'' \<mapsto> Num 0]],
      instances = [\<lparr>stateObj = 1, subscribers = [], propSubscribers = []\<rparr>,
                   \<lparr>stateObj = 3, subscribers = [], propSubscribers = []\<rparr>],
      stores = [(''default'', 0), (''counter'', 1)], symbols = 0, console = []\<rparr>)"
  by (simp add: counter_setup_def counter_before_def module_world_eq createStore_def spread_def
        deref_def)

lemma counter_world_valid: "valid_store counter_world counter_store"
  by (simp add: counter_world_def counter_store_def counter_setup_eq valid_store_def)

lemma counter_state: "state_of counter_world counter_store = [''count'' \<mapsto> Num 0]"
  by (simp add: counter_world_def counter_store_def counter_setup_eq state_of_def
        instance_of_def deref_def)






lemma profile_setup_eq:
  "profile_setup =
     (1, \<lparr>heap = [Map.empty, Map.empty, [''name'' \<mapsto> Str ''A''], [''user'' \<mapsto> Obj 2],
                 [''user'' \<mapsto> Obj 2]],
      instances = [\<lparr>stateObj = 1, subscribers = [], propSubscribers = []\<rparr>,
                   \<lparr>stateObj = 4, subscribers = [], propSubscribers = []\<rparr>],
      stores = [(''default'', 0), (''profile'', 1)], symbols = 0, console = []\<rparr>)"
  by (simp add: profile_setup_def module_world_eq createStore_def spread_def deref_def)

lemma profile_store_eq: "profile_store = 1"
  by (simp add: profile_store_def profile_setup_eq)

lemma profile_world_valid: "valid_store profile_world profile_store"
  by (simp add: profile_world_def profile_setup_eq profile_store_eq valid_store_def)

lemmas run_defs =
  store_set_def proxy_set_def notify_global_def notify_prop_def invoke_def
  log_event_def assign_def state_of_def instance_of_def deref_def prop_get_def strict_eq_def
  is_zero_def after_def emitted_def Let_def store_get_def proxy_get_def


section \<open>Properties of the second model\<close>

subsection \<open>Frame lemmas\<close>

lemma instance_of_full_console [simp]:
  "instance_of_full (w\<lparr>console_full := c\<rparr>) s = instance_of_full w s"
  by (simp add: instance_of_full_def)

lemma instance_of_full_heap [simp]:
  "instance_of_full (w\<lparr>heap_full := h\<rparr>) s = instance_of_full w s"
  by (simp add: instance_of_full_def)

lemma state_of_full_console [simp]:
  "state_of_full (w\<lparr>console_full := c\<rparr>) s = state_of_full w s"
  by (simp add: state_of_full_def)

lemma subscribers_on_full_console [simp]:
  "subscribers_on_full (w\<lparr>console_full := c\<rparr>) s k = subscribers_on_full w s k"
  by (simp add: subscribers_on_full_def)

lemma subscribers_on_full_heap [simp]:
  "subscribers_on_full (w\<lparr>heap_full := h\<rparr>) s k = subscribers_on_full w s k"
  by (simp add: subscribers_on_full_def)

lemma valid_store_full_console [simp]:
  "valid_store_full (w\<lparr>console_full := c\<rparr>) s = valid_store_full w s"
  by (simp add: valid_store_full_def)

lemma instance_of_full_written [simp]:
  "instance_of_full (written w s' prop val) s = instance_of_full w s"
  by (simp add: written_def)

lemma subscribers_on_full_written [simp]:
  "subscribers_on_full (written w s' prop val) s k = subscribers_on_full w s k"
  by (simp add: written_def)

lemma console_full_written [simp]: "console_full (written w s prop val) = console_full w"
  by (simp add: written_def)

lemma valid_store_full_written [simp]:
  "valid_store_full (written w s' prop val) s = valid_store_full w s"
  by (simp add: written_def valid_store_full_def)

lemma observing_console [simp]: "observing (w\<lparr>console_full := c\<rparr>) s = observing w s"
  by (simp add: observing_def)

lemma observing_written [simp]: "observing (written w s' prop val) s = observing w s"
  by (simp add: observing_def)

lemma valid_stateObj_full:
  "valid_store_full w s \<Longrightarrow> stateObj_full (instance_of_full w s) < length (heap_full w)"
  by (simp add: valid_store_full_def instance_of_full_def)

lemma state_of_full_written:
  "valid_store_full w s \<Longrightarrow>
   state_of_full (written w s prop val) s = assigned (state_of_full w s) prop val"
  by (simp add: written_def state_of_full_def deref_full_def valid_stateObj_full)

lemma emitted_full_append [simp]:
  "emitted_full w (w'\<lparr>console_full := console_full w @ evs\<rparr>) = evs"
  by (simp add: emitted_full_def)

lemma emitted_full_self [simp]: "emitted_full w w = []"
  by (simp add: emitted_full_def)

lemma after_full_simps [simp]:
  "after_full w (Returned x w') = w'"
  "after_full w (Threw e w') = w'"
  "after_full w Unfollowed = w"
  by (simp_all add: after_full_def)

lemma map_key_key_value [simp]: "map_key (key_value k) = key_value k"
  by (cases k) (simp_all add: map_key_def)

lemma map_key_Str [simp]: "map_key (Str name) = Str name"
  by (simp add: map_key_def)

lemma map_key_idem [simp]: "map_key (map_key v) = map_key v"
  by (simp add: map_key_def)

subsection \<open>Assigning\<close>

lemma assigned_writes_own:
  "writes_own ob prop \<Longrightarrow> assigned ob prop val = ob(prop \<mapsto> val)"
  by (auto simp add: assigned_def assign_full_def writes_own_def)

lemma assign_full_writes_own:
  "writes_own ob prop \<Longrightarrow> assign_full ob prop val = Some (ob(prop \<mapsto> val))"
  by (auto simp add: assign_full_def writes_own_def)

lemma assigned_setter:
  "\<not> writes_own ob prop \<Longrightarrow> assigned ob prop val = ob"
  by (auto simp add: assigned_def assign_full_def writes_own_def)

lemma assign_full_assigned:
  "keeps_prototype ob prop val \<Longrightarrow> assign_full ob prop val = Some (assigned ob prop val)"
  by (auto simp add: keeps_prototype_def assigned_def)

lemma keeps_prototype_writes_own: "writes_own ob prop \<Longrightarrow> keeps_prototype ob prop val"
  by (simp add: keeps_prototype_def assign_full_writes_own)

lemma keeps_prototype_same:
  "strict_eq (prop_get_full ob prop) val \<Longrightarrow> keeps_prototype ob prop val"
  by (auto simp add: keeps_prototype_def assign_full_def prop_get_full_def strict_eq_def is_zero_def
        split: option.splits)

lemma writes_own_assigned:
  "writes_own ob prop' \<Longrightarrow> writes_own (assigned ob prop val) prop'"
  by (cases "writes_own ob prop")
     (auto simp add: assigned_writes_own assigned_setter writes_own_def)

lemma prop_get_full_assigned_other:
  "prop' \<noteq> prop \<Longrightarrow> prop_get_full (assigned ob prop val) prop' = prop_get_full ob prop'"
  by (cases "writes_own ob prop")
     (simp_all add: assigned_writes_own assigned_setter prop_get_full_def)

lemma prop_get_full_assigned_own:
  "writes_own ob prop \<Longrightarrow> prop_get_full (assigned ob prop val) prop = val"
  by (simp add: assigned_writes_own prop_get_full_def)


subsection \<open>The trap when the subscribers observe\<close>

lemma react_passive:
  "inert r \<Longrightarrow>
   react nested r w = (case r of Throw err \<Rightarrow> Threw (Raised err) w | _ \<Rightarrow> Returned () w)"
  by (cases r) simp_all

lemma notify_prop_full_string:
  assumes "inert (snd entry (PropArgs val old) (state_of_full w s))"
  shows "notify_prop_full nested s (StringKey name) val old entry w =
     Returned () (w\<lparr>console_full := console_full w @
        prop_events_full name val old (state_of_full w s) entry\<rparr>)"
  using assms
  by (cases "snd entry (PropArgs val old) (state_of_full w s)")
     (simp_all add: notify_prop_full_def invoke_full_def log_event_full_def prop_events_full_def Let_def)

lemma notify_global_full_eq:
  assumes "inert (snd entry (GlobalArgs prop val) (state_of_full w s))"
  shows "notify_global_full nested s prop val entry w =
     Returned () (w\<lparr>console_full := console_full w @
        global_events_full prop val (state_of_full w s) entry\<rparr>)"
  using assms
  by (cases "snd entry (GlobalArgs prop val) (state_of_full w s)")
     (simp_all add: notify_global_full_def invoke_full_def log_event_full_def global_events_full_def Let_def)

lemma forEach_full_append_console:
  assumes body: "\<And>x w. x \<in> set m \<Longrightarrow>
            body x w = Returned () (w\<lparr>console_full := console_full w @ ev (state_of_full w s) x\<rparr>)"
      and cur: "\<And>w c. current (w\<lparr>console_full := c\<rparr>) = current w"
  shows "set xs \<subseteq> set m \<Longrightarrow> fst ` set xs \<subseteq> fst ` set (current w) \<Longrightarrow>
     forEach_full body current xs w =
       Returned () (w\<lparr>console_full := console_full w @ concat (map (ev (state_of_full w s)) xs)\<rparr>)"
proof (induction xs arbitrary: w)
  case Nil
  show ?case by simp
next
  case (Cons x xs)
  from Cons.prems have x: "x \<in> set m" and xs: "set xs \<subseteq> set m"
    and px: "fst x \<in> fst ` set (current w)" and pxs: "fst ` set xs \<subseteq> fst ` set (current w)"
    by auto
  let ?w' = "w\<lparr>console_full := console_full w @ ev (state_of_full w s) x\<rparr>"
  have "forEach_full body current xs ?w' =
       Returned () (?w'\<lparr>console_full := console_full ?w' @ concat (map (ev (state_of_full ?w' s)) xs)\<rparr>)"
    using xs pxs by (intro Cons.IH) (simp_all add: cur)
  then show ?case
    using px by (simp add: body[OF x, of w])
qed

lemma observing_subscribers:
  "observing w s \<Longrightarrow> entry \<in> set (subscribers_full (instance_of_full w s)) \<Longrightarrow>
   inert (snd entry args seen)"
  by (auto simp add: observing_def callbacks_of_def)

lemma observing_subscribers_on:
  assumes "observing w s" and "entry \<in> set (subscribers_on_full w s k)"
  shows "inert (snd entry args seen)"
proof (cases "map_of (propSubscribers_full (instance_of_full w s)) (map_key k)")
  case None
  with assms(2) show ?thesis by (simp add: subscribers_on_full_def)
next
  case (Some m)
  with assms(2) have "entry \<in> set m" by (simp add: subscribers_on_full_def)
  moreover from Some have "(map_key k, m) \<in> set (propSubscribers_full (instance_of_full w s))"
    by (rule map_of_SomeD)
  ultimately have "snd entry \<in> set (callbacks_of (instance_of_full w s))"
    by (force simp add: callbacks_of_def)
  with assms(1) show ?thesis by (simp add: observing_def)
qed

lemma forEach_full_notify_prop:
  assumes "observing w s"
  shows "forEach_full (notify_prop_full nested s (StringKey name) val old)
           (\<lambda>w'. subscribers_on_full w' s (Str name)) (subscribers_on_full w s (Str name)) w =
         Returned () (w\<lparr>console_full := console_full w @
           concat (map (prop_events_full name val old (state_of_full w s))
                       (subscribers_on_full w s (Str name)))\<rparr>)"
proof (rule forEach_full_append_console[where m = "subscribers_on_full w s (Str name)"])
  fix x w'
  assume "x \<in> set (subscribers_on_full w s (Str name))"
  with assms have "inert (snd x (PropArgs val old) (state_of_full w' s))"
    by (rule observing_subscribers_on)
  then show "notify_prop_full nested s (StringKey name) val old x w' =
     Returned () (w'\<lparr>console_full := console_full w' @
        prop_events_full name val old (state_of_full w' s) x\<rparr>)"
    by (rule notify_prop_full_string)
qed simp_all

lemma forEach_full_notify_global:
  assumes "observing w s"
  shows "forEach_full (notify_global_full nested s k val)
           (\<lambda>w'. subscribers_full (instance_of_full w' s)) (subscribers_full (instance_of_full w s)) w =
         Returned () (w\<lparr>console_full := console_full w @
           concat (map (global_events_full k val (state_of_full w s))
                       (subscribers_full (instance_of_full w s)))\<rparr>)"
proof (rule forEach_full_append_console[where m = "subscribers_full (instance_of_full w s)"])
  fix x w'
  assume "x \<in> set (subscribers_full (instance_of_full w s))"
  with assms have "inert (snd x (GlobalArgs k val) (state_of_full w' s))"
    by (rule observing_subscribers)
  then show "notify_global_full nested s k val x w' =
     Returned () (w'\<lparr>console_full := console_full w' @
        global_events_full k val (state_of_full w' s) x\<rparr>)"
    by (rule notify_global_full_eq)
qed simp_all

lemma set_trap_unfold:
  "set_trap nested s k val w =
     (case assign_full (state_of_full w s) k val of
        None \<Rightarrow> Unfollowed
      | Some ob \<Rightarrow>
          (let w1 = w\<lparr>heap_full := (heap_full w)[stateObj_full (instance_of_full w s) := ob]\<rparr>
           in if strict_eq (prop_get_full (state_of_full w s) k) val then Returned True w1
              else (case notify_prop_subscribers nested s k val (prop_get_full (state_of_full w s) k) w1 of
                      Returned _ w2 \<Rightarrow>
                        (case notify_global_subscribers nested s k val w2 of
                           Returned _ w3 \<Rightarrow> Returned True w3
                         | Threw e w' \<Rightarrow> Threw e w'
                         | Unfollowed \<Rightarrow> Unfollowed)
                    | Threw e w' \<Rightarrow> Threw e w'
                    | Unfollowed \<Rightarrow> Unfollowed)))"
  by (simp add: set_trap_def state_of_full_def Let_def split: option.split)

lemma notify_prop_subscribers_string:
  assumes "observing w s"
  shows "notify_prop_subscribers nested s (StringKey name) val old w =
         Returned () (w\<lparr>console_full := console_full w @
           concat (map (prop_events_full name val old (state_of_full w s))
                       (subscribers_on_full w s (Str name)))\<rparr>)"
proof (cases "map_of (propSubscribers_full (instance_of_full w s)) (Str name)")
  case None
  then show ?thesis by (simp add: notify_prop_subscribers_def subscribers_on_full_def)
next
  case (Some m)
  then have "subscribers_on_full w s (Str name) = m"
    by (simp add: subscribers_on_full_def)
  with forEach_full_notify_prop[OF assms, where name=name and nested=nested and val=val and old=old] Some
  show ?thesis
    by (simp add: notify_prop_subscribers_def)
qed

lemma notify_global_subscribers_eq:
  assumes "observing w s"
  shows "notify_global_subscribers nested s k val w =
         Returned () (w\<lparr>console_full := console_full w @
           concat (map (global_events_full k val (state_of_full w s))
                       (subscribers_full (instance_of_full w s)))\<rparr>)"
  using forEach_full_notify_global[OF assms] by (simp add: notify_global_subscribers_def)

lemma set_trap_string:
  assumes "observing w s" and "keeps_prototype (state_of_full w s) (StringKey name) val"
  shows "set_trap nested s (StringKey name) val w = Returned True (set_result_full w s (name, val))"
proof -
  let ?w1 = "written w s (StringKey name) val"
  let ?old = "prop_get_full (state_of_full w s) (StringKey name)"
  have w1: "w\<lparr>heap_full := (heap_full w)
        [stateObj_full (instance_of_full w s) := assigned (state_of_full w s) (StringKey name) val]\<rparr> = ?w1"
    by (simp add: written_def)
  have obs: "observing ?w1 s" using assms(1) by simp
  have loop1: "notify_prop_subscribers nested s (StringKey name) val ?old ?w1 =
         Returned () (?w1\<lparr>console_full := console_full w @
           concat (map (prop_events_full name val ?old (state_of_full ?w1 s))
                       (subscribers_on_full w s (Str name)))\<rparr>)"
    using notify_prop_subscribers_string[OF obs, where name=name and nested=nested and val=val and old="?old"]
    by simp
  let ?w2 = "?w1\<lparr>console_full := console_full w @
         concat (map (prop_events_full name val ?old (state_of_full ?w1 s))
                     (subscribers_on_full w s (Str name)))\<rparr>"
  have obs2: "observing ?w2 s" using assms(1) by simp
  have loop2: "notify_global_subscribers nested s (StringKey name) val ?w2 =
         Returned () (?w2\<lparr>console_full := console_full ?w2 @
           concat (map (global_events_full (StringKey name) val (state_of_full ?w1 s))
                       (subscribers_full (instance_of_full w s)))\<rparr>)"
    using notify_global_subscribers_eq[OF obs2, where nested=nested and k="StringKey name" and val=val]
    by simp
  show ?thesis
    by (simp add: set_trap_unfold assign_full_assigned[OF assms(2)] w1 loop1 loop2
          set_result_full_def set_events_full_def Let_def)
qed

lemma proxy_set_full_string:
  assumes "observing w s" and "keeps_prototype (state_of_full w s) (StringKey name) val"
  shows "proxy_set_full (Suc depth) s (StringKey name) val w =
           Returned True (set_result_full w s (name, val))"
  using assms by (simp add: set_trap_string)

lemma store_set_full_string:
  assumes "observing w s" and "keeps_prototype (state_of_full w s) (StringKey name) val"
  shows "store_set_full (Suc depth) s (StringKey name) val w =
           Returned val (set_result_full w s (name, val))"
  using assms by (simp add: store_set_full_def set_trap_string)

subsection \<open>What observing subscribers leave untouched\<close>

text \<open>
  Whatever the key, a notification of observing subscribers is followed to its end or
  to the exception that leaves it, and all it changes is the trace.
\<close>

lemma only_logged_Returned [simp]:
  "only_logged w (Returned x w') = (\<exists>evs. w' = w\<lparr>console_full := console_full w @ evs\<rparr>)"
  by (simp add: only_logged_def)

lemma only_logged_Threw [simp]:
  "only_logged w (Threw e w') = (\<exists>evs. w' = w\<lparr>console_full := console_full w @ evs\<rparr>)"
  by (simp add: only_logged_def)

lemma only_logged_Unfollowed [simp]: "\<not> only_logged w Unfollowed"
  by (simp add: only_logged_def)

lemma ex_console: "\<exists>evs. w = w\<lparr>console_full := console_full w @ evs\<rparr>"
  by (rule exI[where x = "[]"]) simp


lemma only_logged_self: "only_logged w (Returned x w)"
  by (simp add: ex_console)


lemma invoke_full_inert:
  assumes "inert (cb args (state_of_full w s))"
  shows "invoke_full nested sub cb args s w =
     (case cb args (state_of_full w s) of
        Throw err \<Rightarrow> Threw (Raised err) (log_event_full (Called sub args (state_of_full w s)) w)
      | _ \<Rightarrow> Returned () (log_event_full (Called sub args (state_of_full w s)) w))"
  using assms by (cases "cb args (state_of_full w s)") (simp_all add: invoke_full_def Let_def)


lemma notify_global_full_only_logged:
  assumes "inert (snd entry (GlobalArgs k val) (state_of_full w s))"
  shows "only_logged w (notify_global_full nested s k val entry w)"
  using notify_global_full_eq[OF assms, of nested] by auto





lemma state_of_full_written_if:
  "state_of_full (written w s k val) s =
     (if stateObj_full (instance_of_full w s) < length (heap_full w)
      then assigned (state_of_full w s) k val else state_of_full w s)"
  by (simp add: written_def state_of_full_def deref_full_def)


subsection \<open>Assigning what the property already reads\<close>

lemma set_trap_same:
  assumes "strict_eq (prop_get_full (state_of_full w s) k) val"
  shows "set_trap nested s k val w = Returned True (written w s k val)"
  using assms
  by (simp add: set_trap_unfold assign_full_assigned[OF keeps_prototype_same[OF assms]] written_def)

lemma strict_eq_trans: "strict_eq a b \<Longrightarrow> strict_eq b c \<Longrightarrow> strict_eq a c"
  by (auto simp add: strict_eq_def is_zero_def)

lemma strict_eq_sym: "strict_eq a b \<Longrightarrow> strict_eq b a"
  by (auto simp add: strict_eq_def is_zero_def)

lemma strict_eq_refl: "a \<noteq> NaN \<Longrightarrow> strict_eq a a"
  by (simp add: strict_eq_def)

lemma strict_eq_not_NaN: "strict_eq a b \<Longrightarrow> a \<noteq> NaN \<and> b \<noteq> NaN"
  by (auto simp add: strict_eq_def is_zero_def)

lemma assigned_same_read:
  assumes "strict_eq (prop_get_full ob k) val"
  shows "prop_get_full (assigned ob k val) k' = prop_get_full ob k' \<or>
         (k' = k \<and> strict_eq (prop_get_full ob k') (prop_get_full (assigned ob k val) k'))"
proof (cases "k' = k")
  case False
  then show ?thesis by (simp add: prop_get_full_assigned_other)
next
  case True
  show ?thesis
  proof (cases "writes_own ob k")
    case True
    with assms \<open>k' = k\<close> show ?thesis by (simp add: prop_get_full_assigned_own)
  next
    case False
    with \<open>k' = k\<close> show ?thesis by (simp add: assigned_setter)
  qed
qed

lemma assigned_identical:
  "ob k = Some val \<Longrightarrow> assigned ob k val = ob"
  by (auto simp add: assigned_def assign_full_def)

lemma written_identical:
  assumes "state_of_full w s k = Some val"
  shows "written w s k val = w"
proof -
  from assms have "stateObj_full (instance_of_full w s) < length (heap_full w)"
    by (auto simp add: state_of_full_def deref_full_def split: if_splits)
  then have "state_of_full w s = heap_full w ! stateObj_full (instance_of_full w s)"
    by (simp add: state_of_full_def deref_full_def)
  moreover from assms have "assigned (state_of_full w s) k val = state_of_full w s"
    by (rule assigned_identical)
  ultimately show ?thesis
    by (simp add: written_def)
qed

subsection \<open>No exception leaves a trap entered with a string key\<close>

lemma notify_prop_full_string_catches:
  "\<not> throws (notify_prop_full nested s (StringKey name) val old entry w)"
  by (simp add: notify_prop_full_def split: outcome.split)

lemma notify_global_full_catches:
  "\<not> throws (notify_global_full nested s k val entry w)"
  by (simp add: notify_global_full_def split: outcome.split)

lemma forEach_full_catches:
  assumes "\<And>x w. \<not> throws (body x w)"
  shows "\<not> throws (forEach_full body current xs w)"
proof (induction xs arbitrary: w)
  case Nil
  show ?case by simp
next
  case (Cons x xs)
  from assms[of x w] Cons.IH show ?case
    by (cases "body x w") simp_all
qed

lemma set_trap_string_catches: "\<not> throws (set_trap nested s (StringKey name) val w)"
proof (cases "assign_full (state_of_full w s) (StringKey name) val")
  case None
  then show ?thesis by (simp add: set_trap_unfold)
next
  case (Some ob)
  let ?old = "prop_get_full (state_of_full w s) (StringKey name)"
  let ?w1 = "w\<lparr>heap_full := (heap_full w)[stateObj_full (instance_of_full w s) := ob]\<rparr>"
  have first: "\<not> throws (notify_prop_subscribers nested s (StringKey name) val ?old ?w1)"
    by (simp add: notify_prop_subscribers_def forEach_full_catches notify_prop_full_string_catches
          split: option.split)
  have second: "\<not> throws (notify_global_subscribers nested s (StringKey name) val w')" for w'
    by (simp add: notify_global_subscribers_def forEach_full_catches notify_global_full_catches)
  show ?thesis
  proof (cases "strict_eq ?old val")
    case True
    with Some show ?thesis by (simp add: set_trap_unfold)
  next
    case False
    show ?thesis
    proof (cases "notify_prop_subscribers nested s (StringKey name) val ?old ?w1")
      case (Returned u w2)
      with second[of w2] Some False show ?thesis
        by (cases "notify_global_subscribers nested s (StringKey name) val w2")
           (simp_all add: set_trap_unfold)
    next
      case (Threw e w2)
      with first show ?thesis by simp
    next
      case Unfollowed
      with Some False show ?thesis by (simp add: set_trap_unfold)
    qed
  qed
qed

lemma proxy_set_full_string_catches: "\<not> throws (proxy_set_full depth s (StringKey name) val w)"
  by (cases depth) (simp_all add: set_trap_string_catches)

subsection \<open>\<^verbatim>\<open>update\<close> when the subscribers observe\<close>

lemma instance_of_full_set_result [simp]:
  "instance_of_full (set_result_full w s' entry) s = instance_of_full w s"
  by (simp add: set_result_full_def)

lemma subscribers_on_full_set_result [simp]:
  "subscribers_on_full (set_result_full w s' entry) s k = subscribers_on_full w s k"
  by (simp add: set_result_full_def)

lemma observing_set_result [simp]: "observing (set_result_full w s' entry) s = observing w s"
  by (simp add: set_result_full_def)

lemma valid_store_full_set_result [simp]:
  "valid_store_full (set_result_full w s' entry) s = valid_store_full w s"
  by (simp add: set_result_full_def)

lemma state_of_full_set_result_if:
  "state_of_full (set_result_full w s entry) s =
     (if stateObj_full (instance_of_full w s) < length (heap_full w)
      then assigned (state_of_full w s) (StringKey (fst entry)) (snd entry) else state_of_full w s)"
  by (simp add: set_result_full_def state_of_full_written_if)


lemma writes_own_set_result:
  "writes_own (state_of_full w s) k \<Longrightarrow> writes_own (state_of_full (set_result_full w s entry) s) k"
  by (simp add: state_of_full_set_result_if writes_own_assigned)

lemma console_full_set_result:
  "console_full (set_result_full w s entry) =
     console_full w @ set_events_full w s (fst entry) (snd entry)"
  by (simp add: set_result_full_def)

lemma emitted_full_set_result [simp]:
  "emitted_full w (set_result_full w s entry) = set_events_full w s (fst entry) (snd entry)"
  by (simp add: set_result_full_def)

lemma update_entries_observing:
  assumes "observing w s"
      and "\<forall>e \<in> set es. writes_own (state_of_full w s) (StringKey (fst e))"
  shows "update_entries (proxy_set_full (Suc depth) s) es w = Returned () (update_result_full w s es)"
  using assms
proof (induction es arbitrary: w)
  case Nil
  show ?case by simp
next
  case (Cons e es)
  from Cons.prems(2) have "writes_own (state_of_full w s) (StringKey (fst e))" by simp
  then have "keeps_prototype (state_of_full w s) (StringKey (fst e)) (snd e)"
    by (rule keeps_prototype_writes_own)
  with Cons.prems(1) have step: "set_trap (proxy_set_full depth) s (StringKey (fst e)) (snd e) w =
      Returned True (set_result_full w s (fst e, snd e))"
    by (rule set_trap_string)
  have "observing (set_result_full w s e) s" using Cons.prems(1) by simp
  moreover have "\<forall>e' \<in> set es. writes_own (state_of_full (set_result_full w s e) s) (StringKey (fst e'))"
    using Cons.prems(2) by (simp add: writes_own_set_result)
  ultimately have "update_entries (proxy_set_full (Suc depth) s) es (set_result_full w s e) =
      Returned () (update_result_full (set_result_full w s e) s es)"
    by (rule Cons.IH)
  with step show ?case by simp
qed

lemma store_update_observing:
  assumes "observing w s"
      and "\<forall>e \<in> set es. writes_own (state_of_full w s) (StringKey (fst e))"
  shows "store_update (Suc depth) s (Properties es) w = Returned Undefined (update_result_full w s es)"
  using update_entries_observing[OF assms, of depth] by (simp add: store_update_def)

lemma instance_of_full_update_result [simp]:
  "instance_of_full (update_result_full w s' es) s = instance_of_full w s"
  by (induction es arbitrary: w) simp_all




subsection \<open>Projections of the trace\<close>

lemma called_append [simp]:
  "called_subscriptions (xs @ ys) = called_subscriptions xs @ called_subscriptions ys"
  by (simp add: called_subscriptions_def)

lemma called_Nil [simp]: "called_subscriptions [] = []"
  by (simp add: called_subscriptions_def)

lemma called_prop_event [simp]:
  "called_subscriptions (prop_events_full name val old seen entry) = [PropEntry (Str name) (fst entry)]"
  by (cases "snd entry (PropArgs val old) seen")
     (simp_all add: prop_events_full_def called_subscriptions_def)

lemma called_global_event [simp]:
  "called_subscriptions (global_events_full k val seen entry) = [GlobalEntry (fst entry)]"
  by (cases "snd entry (GlobalArgs k val) seen")
     (simp_all add: global_events_full_def called_subscriptions_def)

lemma called_prop_events:
  "called_subscriptions (concat (map (prop_events_full name val old seen) m)) =
     map (\<lambda>entry. PropEntry (Str name) (fst entry)) m"
  by (induction m) simp_all

lemma called_global_events:
  "called_subscriptions (concat (map (global_events_full k val seen) m)) =
     map (\<lambda>entry. GlobalEntry (fst entry)) m"
  by (induction m) simp_all

lemma called_set_events:
  "called_subscriptions (set_events_full w s name val) =
     (if strict_eq (prop_get_full (state_of_full w s) (StringKey name)) val then []
      else map (\<lambda>entry. PropEntry (Str name) (fst entry)) (subscribers_on_full w s (Str name)) @
           map (\<lambda>entry. GlobalEntry (fst entry)) (subscribers_full (instance_of_full w s)))"
  by (simp add: set_events_full_def Let_def called_prop_events called_global_events)

lemma logged_append [simp]:
  "logged_errors (xs @ ys) = logged_errors xs @ logged_errors ys"
  by (simp add: logged_errors_def)

lemma logged_Nil [simp]: "logged_errors [] = []"
  by (simp add: logged_errors_def)

lemma raised_by_Cons [simp]:
  "raised_by args seen (entry # m) =
     (case snd entry args seen of Throw err \<Rightarrow> [Raised err] | _ \<Rightarrow> []) @ raised_by args seen m"
  by (simp add: raised_by_def)

lemma raised_by_Nil [simp]: "raised_by args seen [] = []"
  by (simp add: raised_by_def)

lemma logged_prop_event [simp]:
  "logged_errors (prop_events_full name val old seen entry) =
     (case snd entry (PropArgs val old) seen of Throw err \<Rightarrow> [Raised err] | _ \<Rightarrow> [])"
  by (cases "snd entry (PropArgs val old) seen")
     (simp_all add: prop_events_full_def logged_errors_def)

lemma logged_global_event [simp]:
  "logged_errors (global_events_full k val seen entry) =
     (case snd entry (GlobalArgs k val) seen of Throw err \<Rightarrow> [Raised err] | _ \<Rightarrow> [])"
  by (cases "snd entry (GlobalArgs k val) seen")
     (simp_all add: global_events_full_def logged_errors_def)

lemma logged_prop_events:
  "logged_errors (concat (map (prop_events_full name val old seen) m)) =
     raised_by (PropArgs val old) seen m"
  by (induction m) simp_all

lemma logged_global_events:
  "logged_errors (concat (map (global_events_full k val seen) m)) =
     raised_by (GlobalArgs k val) seen m"
  by (induction m) simp_all

lemma logged_set_events:
  "logged_errors (set_events_full w s name val) =
     (if strict_eq (prop_get_full (state_of_full w s) (StringKey name)) val then []
      else raised_by (PropArgs val (prop_get_full (state_of_full w s) (StringKey name)))
             (state_of_full (written w s (StringKey name) val) s) (subscribers_on_full w s (Str name)) @
           raised_by (GlobalArgs (StringKey name) val)
             (state_of_full (written w s (StringKey name) val) s)
             (subscribers_full (instance_of_full w s)))"
  by (simp add: set_events_full_def Let_def logged_prop_events logged_global_events)


lemma found_Nil [simp]: "found_states [] = []"
  by (simp add: found_states_def)

lemma found_prop_event [simp]:
  "found_states (prop_events_full name val old seen entry) = [seen]"
  by (cases "snd entry (PropArgs val old) seen")
     (simp_all add: prop_events_full_def found_states_def)

lemma found_global_event [simp]:
  "found_states (global_events_full k val seen entry) = [seen]"
  by (cases "snd entry (GlobalArgs k val) seen")
     (simp_all add: global_events_full_def found_states_def)







subsection \<open>\<^verbatim>\<open>update\<close> with the values the properties already read\<close>

lemma set_events_full_same:
  "strict_eq (prop_get_full (state_of_full w s) (StringKey name)) val \<Longrightarrow>
   set_events_full w s name val = []"
  by (simp add: set_events_full_def Let_def)

lemma set_result_full_same:
  "strict_eq (prop_get_full (state_of_full w s) (StringKey (fst entry))) (snd entry) \<Longrightarrow>
   set_result_full w s entry = written w s (StringKey (fst entry)) (snd entry)"
  by (simp add: set_result_full_def set_events_full_same)

lemma prop_get_full_set_result_same:
  assumes "strict_eq (prop_get_full (state_of_full w s) (StringKey (fst entry))) (snd entry)"
      and "strict_eq (prop_get_full (state_of_full w s) k) v"
  shows "strict_eq (prop_get_full (state_of_full (set_result_full w s entry) s) k) v"
proof (cases "stateObj_full (instance_of_full w s) < length (heap_full w)")
  case False
  with assms(2) show ?thesis by (simp add: state_of_full_set_result_if)
next
  case True
  from assigned_same_read[OF assms(1), of k] assms(2) have
    "strict_eq (prop_get_full (assigned (state_of_full w s) (StringKey (fst entry)) (snd entry)) k) v"
    by (auto intro: strict_eq_trans strict_eq_sym)
  with True show ?thesis by (simp add: state_of_full_set_result_if)
qed

lemma update_entries_same:
  assumes "\<forall>e \<in> set es. strict_eq (prop_get_full (state_of_full w s) (StringKey (fst e))) (snd e)"
  shows "update_entries (proxy_set_full (Suc depth) s) es w = Returned () (update_result_full w s es) \<and>
         console_full (update_result_full w s es) = console_full w \<and>
         (\<forall>k v. strict_eq (prop_get_full (state_of_full w s) k) v \<longrightarrow>
                strict_eq (prop_get_full (state_of_full (update_result_full w s es) s) k) v)"
  using assms
proof (induction es arbitrary: w)
  case Nil
  show ?case by simp
next
  case (Cons e es)
  let ?w1 = "set_result_full w s e"
  from Cons.prems have same: "strict_eq (prop_get_full (state_of_full w s) (StringKey (fst e))) (snd e)"
    by simp
  then have step: "set_trap (proxy_set_full depth) s (StringKey (fst e)) (snd e) w = Returned True ?w1"
    by (simp add: set_trap_same set_result_full_same)
  have keep: "strict_eq (prop_get_full (state_of_full ?w1 s) k) v"
    if "strict_eq (prop_get_full (state_of_full w s) k) v" for k v
    using same that by (rule prop_get_full_set_result_same)
  then have "\<forall>e' \<in> set es. strict_eq (prop_get_full (state_of_full ?w1 s) (StringKey (fst e'))) (snd e')"
    using Cons.prems by simp
  from Cons.IH[OF this] step keep same show ?case
    by (simp add: console_full_set_result set_events_full_same)
qed

subsection \<open>The example worlds, evaluated\<close>

lemma counter_full_valid: "valid_store_full counter_full 0"
  by (simp add: counter_full_def valid_store_full_def)

lemma watched_full_eq:
  "watched_full =
     \<lparr>heap_full = [[StringKey ''count'' \<mapsto> Num 0]],
      instances_full = [\<lparr>stateObj_full = 0,
         subscribers_full = [(2, failing_full), (3, quiet_full)],
         propSubscribers_full = [(Str ''count'', [(0, failing_full), (1, quiet_full)])]\<rparr>],
      symbols_full = 4, console_full = []\<rparr>"
  by (simp add: watched_full_def counter_full_def store_on_full_def store_subscribe_full_def
        instance_of_full_def map_key_def Let_def)

lemma tagged_full_eq:
  "tagged_full =
     \<lparr>heap_full = [[StringKey ''count'' \<mapsto> Num 0]],
      instances_full = [\<lparr>stateObj_full = 0,
         subscribers_full = [(2, failing_full), (3, quiet_full)],
         propSubscribers_full = [(Sym 7, [(0, failing_full), (1, quiet_full)])]\<rparr>],
      symbols_full = 4, console_full = []\<rparr>"
  by (simp add: tagged_full_def counter_full_def store_on_full_def store_subscribe_full_def
        instance_of_full_def map_key_def Let_def)


lemma pair_full_eq:
  "pair_full =
     \<lparr>heap_full = [[StringKey ''a'' \<mapsto> Num 0, StringKey ''b'' \<mapsto> Num 0]],
      instances_full = [\<lparr>stateObj_full = 0, subscribers_full = [(0, quiet_full)],
         propSubscribers_full = []\<rparr>],
      symbols_full = 1, console_full = []\<rparr>"
  by (simp add: pair_full_def store_subscribe_full_def instance_of_full_def Let_def)

lemma capped_full_eq:
  "capped_full =
     \<lparr>heap_full = [[StringKey ''count'' \<mapsto> Num 0]],
      instances_full = [\<lparr>stateObj_full = 0, subscribers_full = [],
         propSubscribers_full = [(Str ''count'', [(0, capping), (1, quiet_full)])]\<rparr>],
      symbols_full = 2, console_full = []\<rparr>"
  by (simp add: capped_full_def counter_full_def store_on_full_def instance_of_full_def map_key_def Let_def)

lemma cancelled_full_eq:
  "cancelled_full =
     \<lparr>heap_full = [[StringKey ''count'' \<mapsto> Num 0]],
      instances_full = [\<lparr>stateObj_full = 0, subscribers_full = [],
         propSubscribers_full = [(Str ''count'', [(0, cancelling), (1, quiet_full)])]\<rparr>],
      symbols_full = 2, console_full = []\<rparr>"
  by (simp add: cancelled_full_def counter_full_def store_on_full_def instance_of_full_def map_key_def Let_def)


lemma watched_full_observing: "observing watched_full 0"
  by (simp add: watched_full_eq observing_def callbacks_of_def instance_of_full_def
        quiet_full_def failing_full_def)

lemma tagged_full_observing: "observing tagged_full 0"
  by (simp add: tagged_full_eq observing_def callbacks_of_def instance_of_full_def
        quiet_full_def failing_full_def)




lemmas run_full_defs =
  store_set_full_def set_trap_def notify_prop_subscribers_def notify_global_subscribers_def
  notify_prop_full_def notify_global_full_def invoke_full_def log_event_full_def
  subscribers_on_full_def map_key_def assign_full_def prop_get_full_def
  state_of_full_def instance_of_full_def deref_full_def strict_eq_def is_zero_def
  emitted_full_def Let_def store_get_full_def proxy_get_full_def
  called_subscriptions_def found_states_def logged_errors_def

text \<open>
  A subscriber that writes: \<^verbatim>\<open>counter.set('count', 5)\<close> calls \<open>capping\<close>, which sets
  \<^verbatim>\<open>count\<close> to \<^verbatim>\<open>100\<close> before the second subscriber of the first assignment is called. The
  four calls find \<^verbatim>\<open>count\<close> at \<^verbatim>\<open>5\<close>, \<^verbatim>\<open>100\<close>, \<^verbatim>\<open>100\<close> and \<^verbatim>\<open>100\<close>, and \<^verbatim>\<open>get('count')\<close>
  reads \<^verbatim>\<open>100\<close> after \<^verbatim>\<open>set\<close> has returned \<^verbatim>\<open>5\<close>.
\<close>

lemma writing_subscriber_example:
  "returns (store_set_full 2 0 (StringKey ''count'') (Num 5) capped_full) \<and>
   store_get_full 0 (StringKey ''count'')
     (after_full capped_full (store_set_full 2 0 (StringKey ''count'') (Num 5) capped_full)) = Num 100 \<and>
   called_subscriptions (emitted_full capped_full
     (after_full capped_full (store_set_full 2 0 (StringKey ''count'') (Num 5) capped_full))) =
     [PropEntry (Str ''count'') 0, PropEntry (Str ''count'') 0, PropEntry (Str ''count'') 1,
      PropEntry (Str ''count'') 1] \<and>
   found_states (emitted_full capped_full
     (after_full capped_full (store_set_full 2 0 (StringKey ''count'') (Num 5) capped_full))) =
     [[StringKey ''count'' \<mapsto> Num 5], [StringKey ''count'' \<mapsto> Num 100],
      [StringKey ''count'' \<mapsto> Num 100], [StringKey ''count'' \<mapsto> Num 100]]"
  by (simp add: numeral_2_eq_2 capped_full_eq run_full_defs capping_def quiet_full_def)

text \<open>
  A subscriber that unsubscribes: the first subscriber on \<^verbatim>\<open>count\<close> cancels the second,
  which \<^verbatim>\<open>forEach\<close> then skips although it was registered when the assignment began.
\<close>

lemma cancelling_subscriber_example:
  "map fst (subscribers_on_full cancelled_full 0 (Str ''count'')) = [0, 1] \<and>
   returns (store_set_full 1 0 (StringKey ''count'') (Num 5) cancelled_full) \<and>
   called_subscriptions (emitted_full cancelled_full
     (after_full cancelled_full (store_set_full 1 0 (StringKey ''count'') (Num 5) cancelled_full))) =
     [PropEntry (Str ''count'') 0]"
  by (simp add: cancelled_full_eq run_full_defs cancelling_def quiet_full_def AList.delete_eq)

text \<open>
  A subscriber registered under a number is kept under that number, and no assignment
  looks there: \<^verbatim>\<open>counter.on(1, quiet); counter.set('1', 5)\<close> calls nobody.
\<close>

lemma number_key_example:
  "map fst (propSubscribers_full (instance_of_full (snd (store_on_full 0 (Num 1) quiet_full counter_full)) 0))
     = [Num 1] \<and>
   emitted_full (snd (store_on_full 0 (Num 1) quiet_full counter_full))
     (after_full (snd (store_on_full 0 (Num 1) quiet_full counter_full))
        (store_set_full 1 0 (StringKey ''1'') (Num 5) (snd (store_on_full 0 (Num 1) quiet_full counter_full))))
     = []"
  by (simp add: counter_full_def store_on_full_def run_full_defs)

text \<open>
  \<^verbatim>\<open>update\<close> with \<^verbatim>\<open>undefined\<close> or \<^verbatim>\<open>null\<close> throws before anything is assigned; a string is
  spread into its characters.
\<close>

lemma update_nullish: "store_update depth s Nullish w = Threw TypeError w"
  by (simp add: store_update_def)

lemma update_scalar: "store_update depth s Scalar w = Returned Undefined w"
  by (simp add: store_update_def)

lemma update_string_example:
  "object_entries (StringValue ''ab'') = Inr [(''0'', Str ''a''), (''1'', Str ''b'')]"
  by (simp add: decimal.simps)

text \<open>
  \<^verbatim>\<open>NaN\<close> is not \<^verbatim>\<open>===\<close> itself: assigning \<^verbatim>\<open>NaN\<close> to a property that holds \<^verbatim>\<open>NaN\<close> notifies
  every subscriber.
\<close>

lemma nan_assignment_example:
  "store_get_full 0 (StringKey ''count'') (written watched_full 0 (StringKey ''count'') NaN) = NaN \<and>
   called_subscriptions (emitted_full (written watched_full 0 (StringKey ''count'') NaN)
     (after_full (written watched_full 0 (StringKey ''count'') NaN)
        (store_set_full (Suc 0) 0 (StringKey ''count'') NaN
           (written watched_full 0 (StringKey ''count'') NaN)))) =
     [PropEntry (Str ''count'') 0, PropEntry (Str ''count'') 1, GlobalEntry 2, GlobalEntry 3]"
  by (simp add: watched_full_eq written_def assigned_def run_full_defs failing_full_def quiet_full_def)




lemma instances_full_update_result:
  "instances_full (update_result_full w s es) = instances_full w"
  by (induction es arbitrary: w) (simp_all add: set_result_full_def written_def)

lemma store_update_entries:
  "object_entries u = Inr es \<Longrightarrow> store_update depth s u w = store_update depth s (Properties es) w"
  by (simp add: store_update_def)

subsection \<open>The first model is the second on ordinary string keys\<close>

lemma lower_lift_obj [simp]: "lower_obj (lift_obj ob) = ob"
  by (rule ext) (simp add: lower_obj_def lift_obj_def)

lemma lift_obj_empty [simp]: "lift_obj Map.empty = Map.empty"
  by (rule ext) (simp add: lift_obj_def split: property_key.split)

lemma lift_obj_upd: "lift_obj (ob(name \<mapsto> val)) = (lift_obj ob)(StringKey name \<mapsto> val)"
  by (rule ext) (simp add: lift_obj_def split: property_key.split)

lemma heap_full_lift [simp]: "heap_full (lift_world w) = map lift_obj (heap w)"
  by (simp add: lift_world_def)

lemma instances_full_lift [simp]: "instances_full (lift_world w) = map lift_store (instances w)"
  by (simp add: lift_world_def)

lemma console_full_lift [simp]: "console_full (lift_world w) = concat (map lift_event (console w))"
  by (simp add: lift_world_def)

lemma symbols_full_lift [simp]: "symbols_full (lift_world w) = symbols w"
  by (simp add: lift_world_def)

lemma lift_entries_Nil [simp]: "lift_entries [] = []"
  by (simp add: lift_entries_def)

lemma instance_of_full_lift: "instance_of_full (lift_world w) s = lift_store (instance_of w s)"
  by (simp add: instance_of_full_def instance_of_def lift_store_def no_store_full_def no_store_def)

lemma deref_full_lift: "deref_full (map lift_obj h) r = lift_obj (deref h r)"
  by (simp add: deref_full_def deref_def)

lemma state_of_full_lift: "state_of_full (lift_world w) s = lift_obj (state_of w s)"
  by (simp add: state_of_full_def state_of_def instance_of_full_lift lift_store_def deref_full_lift)

lemma prop_get_full_lift:
  "ordinary name \<Longrightarrow> prop_get_full (lift_obj ob) (StringKey name) = prop_get ob name"
  by (simp add: prop_get_full_def prop_get_def lift_obj_def ordinary_def split: option.split)

lemma writes_own_lift: "ordinary name \<Longrightarrow> writes_own (lift_obj ob) (StringKey name)"
  by (simp add: writes_own_def ordinary_def)

lemma map_of_lift_props:
  "map_of (map (\<lambda>entry. (Str (fst entry), lift_entries (snd entry))) ps) (Str name) =
     map_option lift_entries (map_of ps name)"
  by (induction ps) auto

lemma subscribers_on_full_lift:
  "subscribers_on_full (lift_world w) s (Str name) = lift_entries (subscribers_on w s name)"
  by (simp add: subscribers_on_full_def subscribers_on_def instance_of_full_lift lift_store_def
        map_of_lift_props split: option.split)

lemma observing_lift: "observing (lift_world w) s"
  by (auto simp add: observing_def callbacks_of_def instance_of_full_lift lift_store_def
        lift_entries_def lift_callback_def split: option.split)

lemma lift_prop_events:
  "concat (map (prop_events_full name val old (lift_obj seen)) (lift_entries m)) =
     concat (map lift_event (concat (map (prop_events name val old seen) m)))"
  by (induction m)
     (simp_all add: lift_entries_def prop_events_full_def prop_events_def lift_callback_def
        split: option.split)

lemma lift_global_events:
  "concat (map (global_events_full (StringKey name) val (lift_obj seen)) (lift_entries m)) =
     concat (map lift_event (concat (map (global_events name val seen) m)))"
  by (induction m)
     (simp_all add: lift_entries_def global_events_full_def global_events_def lift_callback_def
        split: option.split)

lemma written_lift:
  assumes "ordinary name"
  shows "written (lift_world w) s (StringKey name) val =
     lift_world (assign (stateObj (instance_of w s)) name val w)"
proof (rule world_full.equality)
  show "heap_full (written (lift_world w) s (StringKey name) val) =
        heap_full (lift_world (assign (stateObj (instance_of w s)) name val w))"
    using assms
    by (simp add: written_def assign_def instance_of_full_lift state_of_full_lift lift_store_def
          assigned_writes_own writes_own_lift state_of_def lift_obj_upd map_update)
qed (simp_all add: written_def assign_def)

lemma set_events_full_lift:
  assumes "ordinary name"
  shows "set_events_full (lift_world w) s name val = concat (map lift_event (set_events w s name val))"
  using assms
  by (simp add: set_events_full_def set_events_def Let_def state_of_full_lift prop_get_full_lift
        written_lift subscribers_on_full_lift instance_of_full_lift lift_store_def
        lift_prop_events lift_global_events)

lemma set_result_full_lift:
  assumes "ordinary name"
  shows "set_result_full (lift_world w) s (name, val) = lift_world (set_result w s (name, val))"
proof (rule world_full.equality)
  show "console_full (set_result_full (lift_world w) s (name, val)) =
        console_full (lift_world (set_result w s (name, val)))"
    using assms by (simp add: set_result_full_def set_result_def set_events_full_lift)
  show "heap_full (set_result_full (lift_world w) s (name, val)) =
        heap_full (lift_world (set_result w s (name, val)))"
    using written_lift[OF assms, of w s val]
    by (simp add: set_result_full_def set_result_def)
qed (simp_all add: set_result_full_def set_result_def written_def assign_def)

lemma writes_own_state_lift:
  "ordinary name \<Longrightarrow> writes_own (state_of_full (lift_world w) s) (StringKey name)"
  by (simp add: state_of_full_lift writes_own_lift)

lemma first_model_agrees:
  assumes "ordinary name"
  shows "proxy_set_full (Suc depth) s (StringKey name) val (lift_world w) =
           Returned True (lift_world (after (proxy_set s name val w)))"
  using proxy_set_full_string[OF observing_lift keeps_prototype_writes_own[OF writes_own_state_lift[OF assms]],
      where depth=depth and val=val]
    assms
  by (simp add: set_result_full_lift proxy_set_eq)

lemma lift_entries_Cons [simp]:
  "lift_entries (entry # m) = (fst entry, lift_callback (snd entry)) # lift_entries m"
  by (simp add: lift_entries_def)

lemma lift_entries_update:
  "lift_entries (AList.update ident cb m) = AList.update ident (lift_callback cb) (lift_entries m)"
  by (induction m) (auto simp add: lift_entries_def)

lemma lift_entries_delete:
  "lift_entries (AList.delete ident m) = AList.delete ident (lift_entries m)"
  by (induction m) (auto simp add: lift_entries_def)

lemma lift_props_update:
  "map (\<lambda>entry. (Str (fst entry), lift_entries (snd entry))) (AList.update name m ps) =
     AList.update (Str name) (lift_entries m) (map (\<lambda>entry. (Str (fst entry), lift_entries (snd entry))) ps)"
  by (induction ps) auto

lemma get_lift:
  "ordinary name \<Longrightarrow> store_get_full s (StringKey name) (lift_world w) = store_get s name w"
  by (simp add: store_get_full_def proxy_get_full_def store_get_def proxy_get_def state_of_full_lift
        prop_get_full_lift)

lemma subscribe_lift:
  "snd (store_subscribe_full s (lift_callback cb) (lift_world w)) =
     lift_world (snd (store_subscribe s cb w))"
proof (rule world_full.equality)
  show "instances_full (snd (store_subscribe_full s (lift_callback cb) (lift_world w))) =
        instances_full (lift_world (snd (store_subscribe s cb w)))"
    by (simp add: store_subscribe_full_def store_subscribe_def Let_def instance_of_full_lift
          lift_store_def lift_entries_update map_update)
qed (simp_all add: store_subscribe_full_def store_subscribe_def Let_def)

lemma on_lift:
  "snd (store_on_full s (Str name) (lift_callback cb) (lift_world w)) =
     lift_world (snd (store_on s name cb w))"
proof (rule world_full.equality)
  show "instances_full (snd (store_on_full s (Str name) (lift_callback cb) (lift_world w))) =
        instances_full (lift_world (snd (store_on s name cb w)))"
    by (cases "map_of (propSubscribers (instance_of w s)) name")
       (simp_all add: store_on_full_def store_on_def Let_def instance_of_full_lift lift_store_def
          map_of_lift_props lift_props_update lift_entries_update map_update update_conv'
          lift_props_update[where m = "[]", simplified])
qed (simp_all add: store_on_full_def store_on_def Let_def)

lemma unsubscribe_lift:
  "call_unsubscribe_full (lift_unsubscribe u) (lift_world w) = lift_world (call_unsubscribe u w)"
proof (cases u)
  case (UnsubscribeAll s ident)
  show ?thesis
  proof (rule world_full.equality)
    show "instances_full (call_unsubscribe_full (lift_unsubscribe u) (lift_world w)) =
          instances_full (lift_world (call_unsubscribe u w))"
      using UnsubscribeAll
      by (simp add: Let_def instance_of_full_lift lift_store_def lift_entries_delete map_update)
  qed (simp_all add: UnsubscribeAll Let_def)
next
  case (UnsubscribeProp s name ident)
  show ?thesis
  proof (cases "map_of (propSubscribers (instance_of w s)) name")
    case None
    with UnsubscribeProp show ?thesis
      by (simp add: Let_def instance_of_full_lift lift_store_def map_of_lift_props)
  next
    case (Some m)
    show ?thesis
    proof (rule world_full.equality)
      show "instances_full (call_unsubscribe_full (lift_unsubscribe u) (lift_world w)) =
            instances_full (lift_world (call_unsubscribe u w))"
        using UnsubscribeProp Some
        by (simp add: Let_def instance_of_full_lift lift_store_def map_of_lift_props
              lift_props_update lift_entries_delete map_update)
    qed (simp_all add: UnsubscribeProp Some Let_def instance_of_full_lift lift_store_def
           map_of_lift_props)
  qed
qed

section \<open>The claims\<close>

subsection \<open>C1: reading back what was written\<close>




subsection \<open>C2: which subscribers a change notifies\<close>




subsection \<open>C3: assigning the current value\<close>

text \<open>
  C3, as the code has it. When the assigned value is \<^verbatim>\<open>===\<close> what the key reads, whatever
  the subscribers would do, \<^verbatim>\<open>set\<close> returns without calling a callback or logging
  anything, and leaves the subscriptions as they were. The assignment itself is still
  done. Every other key reads what it read before and the assigned key reads a value
  \<^verbatim>\<open>===\<close> the one before, so that only a zero can change, in its sign; and the state
  object is the old one with the key assigned, which is the same object content only
  when it held this very value under the key as an own property. The same holds for
  \<^verbatim>\<open>update\<close> with an object whose every value is \<^verbatim>\<open>===\<close> what its key reads.
\<close>

theorem unchanged_value_is_silent:
  assumes "strict_eq (store_get_full s k w) val"
  shows "store_set_full (Suc depth) s k val w = Returned val (written w s k val) \<and>
         emitted_full w (written w s k val) = [] \<and>
         instances_full (written w s k val) = instances_full w \<and>
         (k' \<noteq> k \<longrightarrow> store_get_full s k' (written w s k val) = store_get_full s k' w) \<and>
         strict_eq (store_get_full s k w) (store_get_full s k (written w s k val)) \<and>
         (valid_store_full w s \<longrightarrow>
            state_of_full (written w s k val) s = assigned (state_of_full w s) k val) \<and>
         (state_of_full w s k = Some val \<longrightarrow> written w s k val = w) \<and>
         ((\<forall>e \<in> set es. strict_eq (store_get_full s (StringKey (fst e)) w) (snd e)) \<longrightarrow>
            store_update (Suc depth) s (Properties es) w = Returned Undefined (update_result_full w s es) \<and>
            emitted_full w (update_result_full w s es) = [] \<and>
            instances_full (update_result_full w s es) = instances_full w \<and>
            (\<forall>k' v. strict_eq (store_get_full s k' w) v \<longrightarrow>
                strict_eq (store_get_full s k' (update_result_full w s es)) v))"
proof -
  from assms have same: "strict_eq (prop_get_full (state_of_full w s) k) val"
    by (simp add: store_get_full_def proxy_get_full_def)
  have "store_set_full (Suc depth) s k val w = Returned val (written w s k val)"
    by (simp add: store_set_full_def set_trap_same[OF same])
  moreover have "emitted_full w (written w s k val) = []"
    by (simp add: emitted_full_def)
  moreover have "instances_full (written w s k val) = instances_full w"
    by (simp add: written_def)
  moreover have "store_get_full s k' (written w s k val) = store_get_full s k' w" if "k' \<noteq> k"
    using that
    by (simp add: store_get_full_def proxy_get_full_def state_of_full_written_if
          prop_get_full_assigned_other)
  moreover have "strict_eq (store_get_full s k w) (store_get_full s k (written w s k val))"
  proof -
    have self: "strict_eq (prop_get_full (state_of_full w s) k) (prop_get_full (state_of_full w s) k)"
      using same by (simp add: strict_eq_def)
    from assigned_same_read[OF same, of k] self
    have "strict_eq (prop_get_full (state_of_full w s) k)
            (prop_get_full (assigned (state_of_full w s) k val) k)"
      by auto
    with self show ?thesis
      by (simp add: store_get_full_def proxy_get_full_def state_of_full_written_if)
  qed
  moreover have "state_of_full (written w s k val) s = assigned (state_of_full w s) k val"
    if "valid_store_full w s"
    using that by (rule state_of_full_written)
  moreover have "written w s k val = w" if "state_of_full w s k = Some val"
    using that by (rule written_identical)
  moreover have "store_update (Suc depth) s (Properties es) w = Returned Undefined (update_result_full w s es) \<and>
            emitted_full w (update_result_full w s es) = [] \<and>
            instances_full (update_result_full w s es) = instances_full w \<and>
            (\<forall>k' v. strict_eq (store_get_full s k' w) v \<longrightarrow>
                strict_eq (store_get_full s k' (update_result_full w s es)) v)"
    if "\<forall>e \<in> set es. strict_eq (store_get_full s (StringKey (fst e)) w) (snd e)"
  proof -
    from that have "\<forall>e \<in> set es. strict_eq (prop_get_full (state_of_full w s) (StringKey (fst e))) (snd e)"
      by (simp add: store_get_full_def proxy_get_full_def)
    from update_entries_same[OF this, of depth] show ?thesis
      by (simp add: store_update_def emitted_full_def store_get_full_def proxy_get_full_def
            instances_full_update_result)
  qed
  ultimately show ?thesis by blast
qed

theorem unchanged_value_is_silent_witness:
  "strict_eq (store_get_full 0 (StringKey ''count'') watched_full) (Num 0) \<and>
   store_set_full (Suc 0) 0 (StringKey ''count'') (Num 0) watched_full = Returned (Num 0) watched_full \<and>
   store_update (Suc 0) 0 (Properties [(''count'', Num 0)]) watched_full =
     Returned Undefined (update_result_full watched_full 0 [(''count'', Num 0)]) \<and>
   emitted_full watched_full (update_result_full watched_full 0 [(''count'', Num 0)]) = []"
proof -
  have same: "strict_eq (store_get_full 0 (StringKey ''count'') watched_full) (Num 0)"
    by (simp add: watched_full_eq run_full_defs)
  have held: "state_of_full watched_full 0 (StringKey ''count'') = Some (Num 0)"
    by (simp add: watched_full_eq run_full_defs)
  have all: "\<forall>e \<in> set [(''count'', Num 0)].
      strict_eq (store_get_full 0 (StringKey (fst e)) watched_full) (snd e)"
    using same by simp
  from unchanged_value_is_silent [OF same, of 0 "StringKey ''count''" "[(''count'', Num 0)]"]
    same held all
  show ?thesis by simp
qed

text \<open>
  C3 as stated fails in two ways, both silent, here on a store with a global subscriber.
  On the state \<^verbatim>\<open>{ a: 0, b: 0 }\<close>, \<^verbatim>\<open>set('c', undefined)\<close> calls nobody and creates the own
  property \<^verbatim>\<open>c\<close>, which the copy \<^verbatim>\<open>getState()\<close> returns then has; and \<^verbatim>\<open>set('a', -0)\<close> calls
  nobody and \<^verbatim>\<open>a\<close> then reads \<^verbatim>\<open>-0\<close>.
\<close>

theorem silent_change_counterexample:
  "map fst (subscribers_full (instance_of_full pair_full 0)) = [0] \<and>
   strict_eq (store_get_full 0 (StringKey ''c'') pair_full) Undefined \<and>
   emitted_full pair_full
     (after_full pair_full (store_set_full (Suc 0) 0 (StringKey ''c'') Undefined pair_full)) = [] \<and>
   dom (state_of_full pair_full 0) = {StringKey ''a'', StringKey ''b''} \<and>
   dom (state_of_full
     (after_full pair_full (store_set_full (Suc 0) 0 (StringKey ''c'') Undefined pair_full)) 0) =
     {StringKey ''a'', StringKey ''b'', StringKey ''c''} \<and>
   fst (store_getState_full 0
     (after_full pair_full (store_set_full (Suc 0) 0 (StringKey ''c'') Undefined pair_full))) = Obj 1 \<and>
   StringKey ''c'' \<in> dom (deref_full (heap_full (snd (store_getState_full 0
     (after_full pair_full (store_set_full (Suc 0) 0 (StringKey ''c'') Undefined pair_full))))) 1) \<and>
   strict_eq (store_get_full 0 (StringKey ''a'') pair_full) NegZero \<and>
   emitted_full pair_full
     (after_full pair_full (store_set_full (Suc 0) 0 (StringKey ''a'') NegZero pair_full)) = [] \<and>
   store_get_full 0 (StringKey ''a'') pair_full = Num 0 \<and>
   store_get_full 0 (StringKey ''a'')
     (after_full pair_full (store_set_full (Suc 0) 0 (StringKey ''a'') NegZero pair_full)) = NegZero"
  by (auto simp add: pair_full_eq run_full_defs object_prototype_names_def store_getState_full_def)

subsection \<open>C4: the state a callback finds\<close>




subsection \<open>C5: a subscriber that throws\<close>

text \<open>
  C5 holds for string keys and fails for symbols. With a string key no exception leaves
  the trap, whatever the subscribers do; when they only observe, \<^verbatim>\<open>set\<close> returns the
  value, every subscriber of the key and then every global subscriber is called
  whatever the earlier ones threw, and the errors logged are the values thrown, in the
  order of the calls. \<^verbatim>\<open>update\<close> with an object returns likewise.
\<close>

theorem throwing_subscriber_is_isolated:
  assumes "observing w s" and "keeps_prototype (state_of_full w s) (StringKey name) val"
  shows "store_set_full (Suc depth) s (StringKey name) val w =
           Returned val (after_full w (store_set_full (Suc depth) s (StringKey name) val w)) \<and>
         called_subscriptions (emitted_full w
           (after_full w (store_set_full (Suc depth) s (StringKey name) val w))) =
           (if strict_eq (store_get_full s (StringKey name) w) val then []
            else map (\<lambda>entry. PropEntry (Str name) (fst entry)) (subscribers_on_full w s (Str name)) @
                 map (\<lambda>entry. GlobalEntry (fst entry)) (subscribers_full (instance_of_full w s))) \<and>
         logged_errors (emitted_full w
           (after_full w (store_set_full (Suc depth) s (StringKey name) val w))) =
           (if strict_eq (store_get_full s (StringKey name) w) val then []
            else raised_by (PropArgs val (store_get_full s (StringKey name) w))
                   (state_of_full (written w s (StringKey name) val) s) (subscribers_on_full w s (Str name)) @
                 raised_by (GlobalArgs (StringKey name) val)
                   (state_of_full (written w s (StringKey name) val) s)
                   (subscribers_full (instance_of_full w s))) \<and>
         \<not> throws (store_set_full depth' s' (StringKey name') val' w') \<and>
         ((\<forall>e \<in> set es. writes_own (state_of_full w s) (StringKey (fst e))) \<longrightarrow>
            store_update (Suc depth) s (Properties es) w =
              Returned Undefined (after_full w (store_update (Suc depth) s (Properties es) w)))"
proof -
  note set = store_set_full_string[OF assms, of depth]
  have "\<not> throws (store_set_full depth' s' (StringKey name') val' w')"
    using proxy_set_full_string_catches[of depth' s' name' val' w']
    by (cases "proxy_set_full depth' s' (StringKey name') val' w'") (simp_all add: store_set_full_def)
  moreover have "store_update (Suc depth) s (Properties es) w =
              Returned Undefined (after_full w (store_update (Suc depth) s (Properties es) w))"
    if "\<forall>e \<in> set es. writes_own (state_of_full w s) (StringKey (fst e))"
    using store_update_observing[OF assms(1) that, of depth] by simp
  ultimately show ?thesis
    using set
    by (simp add: called_set_events logged_set_events store_get_full_def proxy_get_full_def)
qed

theorem throwing_subscriber_is_isolated_witness:
  "observing watched_full 0 \<and>
   keeps_prototype (state_of_full watched_full 0) (StringKey ''count'') (Num 1) \<and>
   store_set_full (Suc 0) 0 (StringKey ''count'') (Num 1) watched_full =
     Returned (Num 1) (after_full watched_full (store_set_full (Suc 0) 0 (StringKey ''count'') (Num 1) watched_full)) \<and>
   called_subscriptions (emitted_full watched_full
     (after_full watched_full (store_set_full (Suc 0) 0 (StringKey ''count'') (Num 1) watched_full))) =
     [PropEntry (Str ''count'') 0, PropEntry (Str ''count'') 1, GlobalEntry 2, GlobalEntry 3] \<and>
   logged_errors (emitted_full watched_full
     (after_full watched_full (store_set_full (Suc 0) 0 (StringKey ''count'') (Num 1) watched_full))) =
     [Raised (Str ''boom''), Raised (Str ''boom'')]"
proof -
  have keep: "keeps_prototype (state_of_full watched_full 0) (StringKey ''count'') (Num 1)"
    by (simp add: keeps_prototype_def assign_full_def)
  have facts: "subscribers_on_full watched_full 0 (Str ''count'') = [(0, failing_full), (1, quiet_full)]"
    "subscribers_full (instance_of_full watched_full 0) = [(2, failing_full), (3, quiet_full)]"
    "store_get_full 0 (StringKey ''count'') watched_full = Num 0"
    by (simp_all add: watched_full_eq run_full_defs)
  from throwing_subscriber_is_isolated [OF watched_full_observing keep, of 0 0 0 "''count''" "Num 1" watched_full "[]"]
    keep facts watched_full_observing
  show ?thesis by (simp add: strict_eq_def is_zero_def failing_full_def quiet_full_def)
qed

text \<open>
  C5 fails when the key is a symbol:
  \<^verbatim>\<open>counter.on(tag, failing); counter.on(tag, quiet); counter.subscribe(failing); counter.subscribe(quiet); counter.set(tag, 1)\<close>.
  The first subscriber throws, the \<^verbatim>\<open>catch\<close> block throws a \<^verbatim>\<open>TypeError\<close> while it builds
  its message, and that error leaves \<^verbatim>\<open>set\<close>: nothing is logged and the three other
  subscribers are not called. The value has been assigned.
\<close>

theorem symbol_key_counterexample:
  "observing tagged_full 0 \<and>
   map fst (subscribers_on_full tagged_full 0 (Sym 7)) = [0, 1] \<and>
   map fst (subscribers_full (instance_of_full tagged_full 0)) = [2, 3] \<and>
   throws (store_set_full (Suc 0) 0 (SymbolKey 7) (Num 1) tagged_full) \<and>
   store_set_full (Suc 0) 0 (SymbolKey 7) (Num 1) tagged_full =
     Threw TypeError (after_full tagged_full (store_set_full (Suc 0) 0 (SymbolKey 7) (Num 1) tagged_full)) \<and>
   called_subscriptions (emitted_full tagged_full
     (after_full tagged_full (store_set_full (Suc 0) 0 (SymbolKey 7) (Num 1) tagged_full))) =
     [PropEntry (Sym 7) 0] \<and>
   logged_errors (emitted_full tagged_full
     (after_full tagged_full (store_set_full (Suc 0) 0 (SymbolKey 7) (Num 1) tagged_full))) = [] \<and>
   store_get_full 0 (SymbolKey 7)
     (after_full tagged_full (store_set_full (Suc 0) 0 (SymbolKey 7) (Num 1) tagged_full)) = Num 1"
  using tagged_full_observing
  by (simp add: tagged_full_eq run_full_defs failing_full_def quiet_full_def)

subsection \<open>C6: unsubscribing\<close>




subsection \<open>C7: the copy \<^verbatim>\<open>getState\<close> returns\<close>

text \<open>
  C7, as the code has it. \<^verbatim>\<open>getState\<close> returns a new object with the own properties of
  the state object (a shallow copy; the code has no \<^verbatim>\<open>immutable\<close> option). Assigning to a
  key of the returned object does not change the store's state object, its subscriber
  registries or the trace: no subscriber is notified. The property values are shared:
  an object held in the state is the same object in the copy.
\<close>

theorem getState_is_a_shallow_copy:
  assumes "valid_store w s"
  shows "fst (store_getState s w) = Obj (length (heap w)) \<and>
         length (heap w) \<noteq> stateObj (instance_of w s) \<and>
         deref (heap (snd (store_getState s w))) (length (heap w)) = state_of w s \<and>
         state_of (snd (store_getState s w)) s = state_of w s \<and>
         state_of (assign (length (heap w)) k v (snd (store_getState s w))) s = state_of w s \<and>
         instances (assign (length (heap w)) k v (snd (store_getState s w))) = instances w \<and>
         emitted w (assign (length (heap w)) k v (snd (store_getState s w))) = []"
proof -
  from assms have r: "stateObj (instance_of w s) < length (heap w)"
    by (rule valid_stateObj)
  then have "state_of (assign (length (heap w)) k v (snd (store_getState s w))) s = state_of w s"
    by (simp add: state_of_def assign_def heap_getState deref_def nth_append)
  moreover from r have "state_of (snd (store_getState s w)) s = state_of w s"
    by (simp add: state_of_def heap_getState deref_def nth_append)
  moreover have "deref (heap (snd (store_getState s w))) (length (heap w)) = state_of w s"
    by (simp add: heap_getState deref_def)
  moreover have "emitted w (assign (length (heap w)) k v (snd (store_getState s w))) = []"
    by (simp add: emitted_def)
  moreover have "instances (assign (length (heap w)) k v (snd (store_getState s w))) = instances w"
    by (simp add: assign_def)
  ultimately show ?thesis using r
    by (simp add: store_getState_def)
qed

theorem getState_is_a_shallow_copy_witness:
  "valid_store profile_world profile_store \<and>
   fst profile_copy = Obj (length (heap profile_world)) \<and>
   state_of (assign (length (heap profile_world)) ''user'' Null (snd profile_copy)) profile_store
     = state_of profile_world profile_store \<and>
   member (fst profile_copy) ''user''
     (assign (length (heap profile_world)) ''user'' Null (snd profile_copy)) = Null \<and>
   store_get profile_store ''user''
     (assign (length (heap profile_world)) ''user'' Null (snd profile_copy)) = Obj 2"
proof -
  have "store_get profile_store ''user''
     (assign (length (heap profile_world)) ''user'' Null (snd profile_copy)) = Obj 2"
    by (simp add: profile_copy_def store_getState_def run_defs profile_world_def
          profile_setup_eq profile_store_eq)
  moreover have "member (fst profile_copy) ''user''
     (assign (length (heap profile_world)) ''user'' Null (snd profile_copy)) = Null"
    by (simp add: profile_copy_def store_getState_def member_def run_defs profile_world_def
          profile_setup_eq profile_store_eq)
  ultimately show ?thesis
    using getState_is_a_shallow_copy [OF profile_world_valid, of "''user''" Null]
      profile_world_valid
    by (simp add: profile_copy_def)
qed


text \<open>
  C7 as stated fails below the top level: \<^verbatim>\<open>copy.user\<close> is the object the store holds
  under \<^verbatim>\<open>user\<close>, and after \<^verbatim>\<open>copy.user.name = 'B'\<close> the store's \<^verbatim>\<open>user.name\<close> reads
  \<^verbatim>\<open>'B'\<close>.
\<close>

theorem nested_mutation_counterexample:
  "member (fst profile_copy) ''user'' (snd profile_copy) =
     store_get profile_store ''user'' (snd profile_copy) \<and>
   member (store_get profile_store ''user'' profile_world) ''name'' profile_world = Str ''A'' \<and>
   member (store_get profile_store ''user'' profile_mutated) ''name'' profile_mutated = Str ''B''"
  by (simp add: profile_mutated_def profile_copy_def store_getState_def member_def
        member_assign_def run_defs profile_world_def profile_setup_eq profile_store_eq)

subsection \<open>C8: creating a store under a registered name\<close>

text \<open>
  C8. When the name is registered, \<^verbatim>\<open>createStore\<close> returns the registered store and the
  world is as before but for one warning on the console: no instance is added, the
  registry is not written and the store's state is unchanged, whatever initial state is
  passed. In particular the second of two calls with one name returns what the first
  returned.
\<close>

theorem createStore_returns_existing:
  assumes "map_of (stores w) name = Some s"
  shows "createStore name initialState w = (s, log_event (WarnStoreExists name) w) \<and>
         instances (snd (createStore name initialState w)) = instances w \<and>
         stores (snd (createStore name initialState w)) = stores w \<and>
         heap (snd (createStore name initialState w)) = heap w \<and>
         state_of (snd (createStore name initialState w)) s = state_of w s \<and>
         emitted w (snd (createStore name initialState w)) = [WarnStoreExists name] \<and>
         fst (createStore name other (snd (createStore name initialState w0))) =
           fst (createStore name initialState w0)"
proof -
  have "fst (createStore name other (snd (createStore name initialState w0))) =
           fst (createStore name initialState w0)"
    using createStore_existing[OF createStore_registers[of name initialState w0], of other]
    by simp
  then show ?thesis
    using assms
    by (simp add: createStore_existing log_event_def state_of_def instance_of_def emitted_def)
qed

theorem createStore_returns_existing_witness:
  "map_of (stores module_world) ''default'' = Some defaultStore \<and>
   createStore ''default'' (Some 0) module_world =
     (defaultStore, log_event (WarnStoreExists ''default'') module_world) \<and>
   state_of (snd (createStore ''default'' (Some 0) module_world)) defaultStore =
     state_of module_world defaultStore"
proof -
  have "map_of (stores module_world) ''default'' = Some defaultStore"
    by (simp add: module_world_eq defaultStore_eq)
  from createStore_returns_existing [OF this, of "Some 0" None module_world] this show ?thesis
    by blast
qed

subsection \<open>C9: looking a store up\<close>

text \<open>
  C9. \<^verbatim>\<open>getStore\<close> reads the registry and nothing else (it is a function of the world to
  a value). For a name that is not registered it returns \<^verbatim>\<open>null\<close>; for a registered name
  it returns the registered instance, which is the one \<^verbatim>\<open>createStore\<close> returned for that
  name and stays so when other stores are created.
\<close>

theorem getStore_null_or_instance:
  "(map_of (stores w) name = None \<longrightarrow> getStore name w = NullValue) \<and>
   (map_of (stores w) name = Some s \<longrightarrow> getStore name w = StoreObject s) \<and>
   getStore name (snd (createStore name initialState w)) =
     StoreObject (fst (createStore name initialState w)) \<and>
   (getStore name w = StoreObject s \<longrightarrow>
      getStore name (snd (createStore name' initialState w)) = StoreObject s)"
proof -
  have "getStore name (snd (createStore name initialState w)) =
     StoreObject (fst (createStore name initialState w))"
    by (simp add: getStore_eq createStore_registers)
  moreover have "getStore name w = StoreObject s \<longrightarrow>
      getStore name (snd (createStore name' initialState w)) = StoreObject s"
    by (auto simp add: getStore_eq createStore_keeps_registered split: option.splits)
  ultimately show ?thesis
    by (simp add: getStore_eq)
qed

theorem getStore_null_or_instance_witness:
  "map_of (stores module_world) ''missing'' = None \<and>
   getStore ''missing'' module_world = NullValue \<and>
   map_of (stores module_world) ''default'' = Some defaultStore \<and>
   getStore ''default'' module_world = StoreObject defaultStore \<and>
   getStore ''default'' (snd (createStore ''counter'' (Some 2) counter_before)) =
     StoreObject defaultStore"
proof -
  have absent: "map_of (stores module_world) ''missing'' = None"
    and present: "map_of (stores module_world) ''default'' = Some defaultStore"
    and before: "stores counter_before = stores module_world"
    by (simp_all add: module_world_eq defaultStore_eq counter_before_def)
  from getStore_null_or_instance [of module_world "''missing''" defaultStore "Some 2" "''counter''"]
    getStore_null_or_instance [of module_world "''default''" defaultStore "Some 2" "''counter''"]
    getStore_null_or_instance [of counter_before "''default''" defaultStore "Some 2" "''counter''"]
    absent present before
  show ?thesis by simp
qed

subsection \<open>C10: the initial state is copied\<close>

text \<open>
  C10. When \<^verbatim>\<open>createStore\<close> constructs a store from the caller's object, the store's
  state object is a new object with the same properties. An assignment to a key of the
  caller's object afterwards changes that object, leaves the store's state and every
  \<^verbatim>\<open>get\<close> as they were, and adds nothing to the trace: no subscriber is notified.
\<close>

theorem createStore_copies_initialState:
  assumes "map_of (stores w) name = None" and "r < length (heap w)"
  shows "valid_store (snd (createStore name (Some r) w)) (fst (createStore name (Some r) w)) \<and>
         state_of (snd (createStore name (Some r) w)) (fst (createStore name (Some r) w)) =
           deref (heap w) r \<and>
         deref (heap (assign r k v (snd (createStore name (Some r) w)))) r =
           (deref (heap w) r)(k \<mapsto> v) \<and>
         state_of (assign r k v (snd (createStore name (Some r) w)))
             (fst (createStore name (Some r) w)) = deref (heap w) r \<and>
         store_get (fst (createStore name (Some r) w)) k'
             (assign r k v (snd (createStore name (Some r) w))) =
           store_get (fst (createStore name (Some r) w)) k' (snd (createStore name (Some r) w)) \<and>
         emitted (snd (createStore name (Some r) w))
             (assign r k v (snd (createStore name (Some r) w))) = []"
  using assms
  by (simp add: createStore_new valid_store_def state_of_def instance_of_def assign_def
        deref_def spread_def nth_append store_get_def proxy_get_def emitted_def)

theorem createStore_copies_initialState_witness:
  "map_of (stores counter_before) ''counter'' = None \<and> 2 < length (heap counter_before) \<and>
   state_of (snd (createStore ''counter'' (Some 2) counter_before))
     (fst (createStore ''counter'' (Some 2) counter_before)) = [''count'' \<mapsto> Num 0] \<and>
   deref (heap (assign 2 ''count'' (Num 9) (snd (createStore ''counter'' (Some 2) counter_before)))) 2
     = [''count'' \<mapsto> Num 9] \<and>
   store_get (fst (createStore ''counter'' (Some 2) counter_before)) ''count''
     (assign 2 ''count'' (Num 9) (snd (createStore ''counter'' (Some 2) counter_before))) = Num 0"
proof -
  have absent: "map_of (stores counter_before) ''counter'' = None"
    and len: "2 < length (heap counter_before)"
    and init: "deref (heap counter_before) 2 = [''count'' \<mapsto> Num 0]"
    by (simp_all add: counter_before_def module_world_eq deref_def)
  from createStore_copies_initialState [OF absent len, of "''count''" "Num 9" "''count''"]
    absent len init
  show ?thesis
    by (simp add: store_get_def proxy_get_def prop_get_def)
qed


end
